theory Spec2Isabelle
  imports Main "HOL-Library.Word"
begin

unbundle bit_operations_syntax

section \<open>The GPU register core of \<^verbatim>\<open>src/core/hw/gpu.cpp\<close>\<close>

text \<open>
  The unit keeps a file of 32-bit registers (\<^verbatim>\<open>g_regs\<close>), three timing counters and two
  frame constants. \<^verbatim>\<open>Read\<close> and \<^verbatim>\<open>Write\<close> serve the MMIO range that starts at
  \<^verbatim>\<open>0x1EF00000\<close>; a write to one of four registers starts a memory fill, a display
  transfer or the command processor; \<^verbatim>\<open>Update\<close> advances the frame and scanline timing.

  The model passes the whole state explicitly (record \<open>world\<close>): the globals of the unit,
  the host memory the translated pointers point into, and the list of everything the unit
  emits (log lines and the calls into the renderer, the interrupt service and the command
  processor), oldest first.
\<close>

subsection \<open>Machine types\<close>

type_synonym u8 = "8 word"
type_synonym u16 = "16 word"
type_synonym u32 = "32 word"
type_synonym u64 = "64 word"

text \<open>
  A host pointer is the address it holds; the null pointer is 0. Host memory is the set
  of mapped bytes. An access through a pointer to a byte that is not mapped stops the
  program (\<open>HostFault\<close>), and so does an integer division by zero.
\<close>

type_synonym host_ptr = nat
type_synonym host_mem = "nat \<rightharpoonup> u8"

datatype fault = HostFault host_ptr | DivideByZero

datatype InterruptId = PDC0 | PDC1

text \<open>
  What the unit emits. The three log macros take the message's arguments; the widths are
  in bits (\<^verbatim>\<open>sizeof(var) * 8\<close>).
\<close>

datatype event =
    ERROR_LOG_unknown_Read nat u32
  | ERROR_LOG_unknown_Write nat nat u32
  | ERROR_LOG_unknown_source_format u32
  | ERROR_LOG_unknown_destination_format u32
  | DEBUG_LOG_MemoryFill u32 u32
  | DEBUG_LOG_DisplayTriggerTransfer "u32 list"
  | NOTICE_LOG_initialized
  | NOTICE_LOG_shutdown
  | ProcessCommandList host_ptr u32
  | SwapBuffers
  | SignalInterrupt InterruptId

text \<open>
  The four instantiations of the templates \<^verbatim>\<open>Read<T>\<close> and \<^verbatim>\<open>Write<T>\<close>: a value
  together with its C++ type.
\<close>

datatype mmio = U8 u8 | U16 u16 | U32 u32 | U64 u64

fun size_bits :: "mmio \<Rightarrow> nat" where
  "size_bits (U8 _) = 8"
| "size_bits (U16 _) = 16"
| "size_bits (U32 _) = 32"
| "size_bits (U64 _) = 64"

fun mmio_nat :: "mmio \<Rightarrow> nat" where
  "mmio_nat (U8 v) = unat v"
| "mmio_nat (U16 v) = unat v"
| "mmio_nat (U32 v) = unat v"
| "mmio_nat (U64 v) = unat v"

subsection \<open>The register file and its named members\<close>

text \<open>
  \<^verbatim>\<open>Regs\<close> is an array of \<^verbatim>\<open>NumIds()\<close> words that the code also reads through named
  members. The header that declares the members is not part of the sources at hand, so
  the place of each member is a parameter: the word it lives in (its
  \<^verbatim>\<open>GPU_REG_INDEX\<close>) and the bits it occupies there. A plain \<^verbatim>\<open>u32\<close> member occupies
  bits 0 to 31 of its word.
\<close>

type_synonym regs = "nat \<Rightarrow> u32"

record reg_field =
  word_index :: nat
  bit_pos :: nat
  bit_len :: nat

definition field_get :: "reg_field \<Rightarrow> regs \<Rightarrow> u32" where
  "field_get f r = take_bit (bit_len f) (drop_bit (bit_pos f) (r (word_index f)))"

definition field_mask :: "reg_field \<Rightarrow> u32" where
  "field_mask f = push_bit (bit_pos f) (mask (bit_len f))"

definition field_set :: "reg_field \<Rightarrow> u32 \<Rightarrow> regs \<Rightarrow> regs" where
  "field_set f v r =
     r(word_index f :=
         (r (word_index f) AND NOT (field_mask f)) OR
         (push_bit (bit_pos f) v AND field_mask f))"

text \<open>
  Everything \<^verbatim>\<open>gpu.cpp\<close> takes from outside itself: the register layout, the two
  enumerators of \<^verbatim>\<open>Regs::PixelFormat\<close> it names, the address accessors of the
  configuration structs (functions of the register file), and the memory collaborator
  (\<^verbatim>\<open>Memory::PhysicalToVirtualAddress\<close>, \<^verbatim>\<open>Memory::GetPointer\<close>). The macro
  \<^verbatim>\<open>GPU_REG_INDEX_WORKAROUND(member, backup)\<close> is declared in the same header; it yields a
  register index from the member and the index written out beside it. The members of
  \<^verbatim>\<open>memory_fill_config[i]\<close> and \<^verbatim>\<open>framebuffer_config[i]\<close> take the array index as a
  \<open>bool\<close> (\<open>False\<close> for 0, \<open>True\<close> for 1), as \<^verbatim>\<open>is_second_filler\<close> does.
\<close>

record platform =
  NumIds :: nat
  GPU_REG_INDEX_WORKAROUND :: "reg_field \<Rightarrow> nat \<Rightarrow> nat"
  fill_address_start :: "bool \<Rightarrow> reg_field"
  fill_value :: "bool \<Rightarrow> reg_field"
  GetStartAddress :: "bool \<Rightarrow> regs \<Rightarrow> u32"
  GetEndAddress :: "bool \<Rightarrow> regs \<Rightarrow> u32"
  fb_address_left1 :: "bool \<Rightarrow> reg_field"
  fb_address_left2 :: "bool \<Rightarrow> reg_field"
  fb_address_right1 :: "bool \<Rightarrow> reg_field"
  fb_address_right2 :: "bool \<Rightarrow> reg_field"
  fb_width :: "bool \<Rightarrow> reg_field"
  fb_height :: "bool \<Rightarrow> reg_field"
  fb_stride :: "bool \<Rightarrow> reg_field"
  fb_color_format :: "bool \<Rightarrow> reg_field"
  fb_active_fb :: "bool \<Rightarrow> reg_field"
  dt_output_width :: reg_field
  dt_output_height :: reg_field
  dt_input_width :: reg_field
  dt_input_height :: reg_field
  dt_input_format :: reg_field
  dt_output_format :: reg_field
  dt_trigger :: reg_field
  GetPhysicalInputAddress :: "regs \<Rightarrow> u32"
  GetPhysicalOutputAddress :: "regs \<Rightarrow> u32"
  cp_size :: reg_field
  cp_trigger :: reg_field
  GetPhysicalAddress :: "regs \<Rightarrow> u32"
  PixelFormat_RGBA8 :: u32
  PixelFormat_RGB8 :: u32
  PhysicalToVirtualAddress :: "u32 \<Rightarrow> u32"
  GetPointer :: "u32 \<Rightarrow> host_ptr"

definition GPU_REG_INDEX :: "reg_field \<Rightarrow> nat" where
  "GPU_REG_INDEX f = word_index f"

subsection \<open>State\<close>

record world =
  g_regs :: regs
  g_cur_line :: u32
  g_last_line_ticks :: u64
  g_last_frame_ticks :: u64
  kFrameCycles :: u32
  kFrameTicks :: u32
  memory :: host_mem
  events :: "event list"

definition emit :: "event \<Rightarrow> world \<Rightarrow> world" where
  "emit e w = w\<lparr>events := events w @ [e]\<rparr>"

text \<open>
  A call either returns (\<open>Inr\<close>, the state it leaves) or stops the program (\<open>Inl\<close>, the
  fault and the state reached when it struck).
\<close>

type_synonym 'a outcome = "(fault \<times> 'a) + 'a"

definition final :: "'a outcome \<Rightarrow> 'a" where
  "final r = (case r of Inl (f, a) \<Rightarrow> a | Inr a \<Rightarrow> a)"

definition returns :: "'a outcome \<Rightarrow> bool" where
  "returns r = (case r of Inl _ \<Rightarrow> False | Inr _ \<Rightarrow> True)"

text \<open>The body of a \<^verbatim>\<open>for\<close> loop run over the values of its counter, in order.\<close>

primrec for_each :: "'i list \<Rightarrow> ('i \<Rightarrow> 's \<Rightarrow> 's outcome) \<Rightarrow> 's \<Rightarrow> 's outcome" where
  "for_each [] body s = Inr s"
| "for_each (i # is) body s =
     (case body i s of Inl e \<Rightarrow> Inl e | Inr s' \<Rightarrow> for_each is body s')"

subsection \<open>Host memory\<close>

text \<open>
  Byte loads and stores through a host pointer, and the \<^verbatim>\<open>u32\<close> store and load of the
  fill loop (\<^verbatim>\<open>*ptr = ...\<close> with \<^verbatim>\<open>u32* ptr\<close>): four bytes, least significant first, as
  on the little-endian hosts the emulator runs on.
\<close>

definition load8 :: "host_mem \<Rightarrow> host_ptr \<Rightarrow> fault + u8" where
  "load8 m p = (case m p of None \<Rightarrow> Inl (HostFault p) | Some b \<Rightarrow> Inr b)"

definition store8 :: "host_mem \<Rightarrow> host_ptr \<Rightarrow> u8 \<Rightarrow> fault + host_mem" where
  "store8 m p b = (case m p of None \<Rightarrow> Inl (HostFault p) | Some _ \<Rightarrow> Inr (m(p \<mapsto> b)))"

definition mapped :: "host_mem \<Rightarrow> host_ptr \<Rightarrow> nat \<Rightarrow> bool" where
  "mapped m p n = (\<forall>k < n. m (p + k) \<noteq> None)"

definition bytes_u32 :: "u8 \<Rightarrow> u8 \<Rightarrow> u8 \<Rightarrow> u8 \<Rightarrow> u32" where
  "bytes_u32 b0 b1 b2 b3 =
     ucast b0 OR push_bit 8 (ucast b1) OR push_bit 16 (ucast b2) OR push_bit 24 (ucast b3)"

definition store32 :: "host_mem \<Rightarrow> host_ptr \<Rightarrow> u32 \<Rightarrow> fault + host_mem" where
  "store32 m p v =
     (if m p = None then Inl (HostFault p)
      else if m (p + 1) = None then Inl (HostFault (p + 1))
      else if m (p + 2) = None then Inl (HostFault (p + 2))
      else if m (p + 3) = None then Inl (HostFault (p + 3))
      else Inr (m(p \<mapsto> ucast v, p + 1 \<mapsto> ucast (drop_bit 8 v),
                  p + 2 \<mapsto> ucast (drop_bit 16 v), p + 3 \<mapsto> ucast (drop_bit 24 v))))"

definition load32 :: "host_mem \<Rightarrow> host_ptr \<Rightarrow> u32 option" where
  "load32 m p =
     (case (m p, m (p + 1), m (p + 2), m (p + 3)) of
        (Some b0, Some b1, Some b2, Some b3) \<Rightarrow> Some (bytes_u32 b0 b1 b2 b3)
      | _ \<Rightarrow> None)"

text \<open>
  Modelled from the spec: \<^verbatim>\<open>bswap32\<close>, a function of the common headers that are not
  among the sources. The fill stores the byte-order-reversed fill value: it reverses the
  four bytes of the 32-bit pattern.
\<close>

definition bswap32 :: "u32 \<Rightarrow> u32" where
  "bswap32 v =
     bytes_u32 (ucast (drop_bit 24 v)) (ucast (drop_bit 16 v)) (ucast (drop_bit 8 v)) (ucast v)"

subsection \<open>Memory fill\<close>

text \<open>
  \<^verbatim>\<open>for (u32* ptr = start; ptr < end; ++ptr) *ptr = bswap32(config.value);\<close>
  The pointer advances by one \<^verbatim>\<open>u32\<close>, four bytes. The register file is not part of the
  host memory the pointers reach, so \<^verbatim>\<open>config.value\<close> is the same in every round.
\<close>

function fill_loop :: "host_ptr \<Rightarrow> host_ptr \<Rightarrow> u32 \<Rightarrow> host_mem \<Rightarrow> host_mem outcome" where
  "fill_loop ptr endp v m =
     (if ptr < endp then
        (case store32 m ptr v of
           Inl f \<Rightarrow> Inl (f, m)
         | Inr m' \<Rightarrow> fill_loop (ptr + 4) endp v m')
      else Inr m)"
  by pat_completeness auto
termination
  by (relation "measure (\<lambda>(ptr, endp, v, m). endp - ptr)") auto

declare fill_loop.simps [simp del]

definition memory_fill :: "platform \<Rightarrow> bool \<Rightarrow> world \<Rightarrow> world outcome" where
  "memory_fill p is_second_filler w =
     (let config = g_regs w in
      if field_get (fill_address_start p is_second_filler) config \<noteq> 0 then
        (let start = GetPointer p (PhysicalToVirtualAddress p (GetStartAddress p is_second_filler config));
             endp = GetPointer p (PhysicalToVirtualAddress p (GetEndAddress p is_second_filler config))
         in case fill_loop start endp (bswap32 (field_get (fill_value p is_second_filler) config)) (memory w) of
              Inl (f, m) \<Rightarrow> Inl (f, w\<lparr>memory := m\<rparr>)
            | Inr m \<Rightarrow>
                Inr (emit (DEBUG_LOG_MemoryFill (GetStartAddress p is_second_filler config)
                                                (GetEndAddress p is_second_filler config))
                          (w\<lparr>memory := m\<rparr>)))
      else Inr w)"

subsection \<open>Display transfer\<close>

record source_color =
  color_r :: int
  color_g :: int
  color_b :: int
  color_a :: int

definition read_u8 :: "host_ptr \<Rightarrow> world \<Rightarrow> (fault \<times> world) + u8" where
  "read_u8 ptr w = (case load8 (memory w) ptr of Inl f \<Rightarrow> Inl (f, w) | Inr b \<Rightarrow> Inr b)"

definition write_u8 :: "host_ptr \<Rightarrow> u8 \<Rightarrow> world \<Rightarrow> world outcome" where
  "write_u8 ptr b w =
     (case store8 (memory w) ptr b of Inl f \<Rightarrow> Inl (f, w) | Inr m \<Rightarrow> Inr (w\<lparr>memory := m\<rparr>))"

definition and_then :: "(fault \<times> world) + 'a \<Rightarrow> ('a \<Rightarrow> (fault \<times> world) + 'b) \<Rightarrow> (fault \<times> world) + 'b" where
  "and_then r k = (case r of Inl e \<Rightarrow> Inl e | Inr a \<Rightarrow> k a)"

text \<open>
  The first \<^verbatim>\<open>switch\<close> of the loop body: the source colour of the pixel. The two
  products are \<^verbatim>\<open>u32\<close> and wrap on their own; the pointer addition does not.
\<close>

definition read_source_color :: "platform \<Rightarrow> host_ptr \<Rightarrow> u32 \<Rightarrow> u32 \<Rightarrow> world \<Rightarrow> (fault \<times> world) + (source_color \<times> world)" where
  "read_source_color p source_pointer y x w =
     (let config = g_regs w in
      if field_get (dt_input_format p) config = PixelFormat_RGBA8 p then
        (let srcptr = source_pointer + unat (x * 4) + unat (y * field_get (dt_input_width p) config * 4) in
         and_then (read_u8 srcptr w) (\<lambda>b0.
         and_then (read_u8 (srcptr + 1) w) (\<lambda>b1.
         and_then (read_u8 (srcptr + 2) w) (\<lambda>b2.
         and_then (read_u8 (srcptr + 3) w) (\<lambda>b3.
           Inr (\<lparr>color_r = uint b0, color_g = uint b1, color_b = uint b2, color_a = uint b3\<rparr>, w))))))
      else
        Inr (\<lparr>color_r = 0, color_g = 0, color_b = 0, color_a = 0\<rparr>,
             emit (ERROR_LOG_unknown_source_format (field_get (dt_input_format p) config)) w))"

text \<open>The second \<^verbatim>\<open>switch\<close>: the store of the pixel.\<close>

definition write_dest_color :: "platform \<Rightarrow> host_ptr \<Rightarrow> u32 \<Rightarrow> u32 \<Rightarrow> source_color \<Rightarrow> world \<Rightarrow> world outcome" where
  "write_dest_color p dest_pointer y x c w =
     (let config = g_regs w in
      if field_get (dt_output_format p) config = PixelFormat_RGB8 p then
        (let dstptr = dest_pointer + unat (x * 3) + unat (y * field_get (dt_output_width p) config * 3) in
         and_then (write_u8 dstptr (word_of_int (color_r c)) w) (\<lambda>w1.
         and_then (write_u8 (dstptr + 1) (word_of_int (color_g c)) w1) (\<lambda>w2.
         write_u8 (dstptr + 2) (word_of_int (color_b c)) w2)))
      else
        Inr (emit (ERROR_LOG_unknown_destination_format (field_get (dt_output_format p) config)) w))"

definition transfer_pixel :: "platform \<Rightarrow> host_ptr \<Rightarrow> host_ptr \<Rightarrow> u32 \<Rightarrow> u32 \<Rightarrow> world \<Rightarrow> world outcome" where
  "transfer_pixel p source_pointer dest_pointer y x w =
     and_then (read_source_color p source_pointer y x w)
       (\<lambda>(c, w1). write_dest_color p dest_pointer y x c w1)"

text \<open>
  The counters \<^verbatim>\<open>y\<close> and \<^verbatim>\<open>x\<close> are \<^verbatim>\<open>u32\<close> and stay below a \<^verbatim>\<open>u32\<close> bound, so
  they take the values \<open>0, 1, ...\<close> up to the bound and never wrap.
\<close>

definition counter_values :: "u32 \<Rightarrow> u32 list" where
  "counter_values bound = map word_of_nat [0..<unat bound]"

definition display_transfer :: "platform \<Rightarrow> world \<Rightarrow> world outcome" where
  "display_transfer p w =
     (let config = g_regs w in
      if field_get (dt_trigger p) config AND 1 \<noteq> 0 then
        (let source_pointer = GetPointer p (PhysicalToVirtualAddress p (GetPhysicalInputAddress p config));
             dest_pointer = GetPointer p (PhysicalToVirtualAddress p (GetPhysicalOutputAddress p config))
         in and_then
              (for_each (counter_values (field_get (dt_output_height p) config)) (\<lambda>y.
                 for_each (counter_values (field_get (dt_output_width p) config)) (\<lambda>x.
                   transfer_pixel p source_pointer dest_pointer y x)) w)
              (\<lambda>w'. Inr (emit (DEBUG_LOG_DisplayTriggerTransfer
                     [field_get (dt_output_height p) config * field_get (dt_output_width p) config * 4,
                      GetPhysicalInputAddress p config,
                      field_get (dt_input_width p) config, field_get (dt_input_height p) config,
                      GetPhysicalOutputAddress p config,
                      field_get (dt_output_width p) config, field_get (dt_output_height p) config,
                      field_get (dt_output_format p) config]) w')))
      else Inr w)"

subsection \<open>Command dispatch\<close>

text \<open>
  \<^verbatim>\<open>Pica::CommandProcessor::ProcessCommandList\<close> belongs to another unit; the call is
  recorded with its two arguments.
\<close>

definition command_dispatch :: "platform \<Rightarrow> world \<Rightarrow> world outcome" where
  "command_dispatch p w =
     (let config = g_regs w in
      if field_get (cp_trigger p) config AND 1 \<noteq> 0 then
        (let buffer = GetPointer p (PhysicalToVirtualAddress p (GetPhysicalAddress p config));
             size = push_bit 3 (field_get (cp_size p) config)
         in Inr (emit (ProcessCommandList buffer size) w))
      else Inr w)"

subsection \<open>Read and Write\<close>

text \<open>
  Both templates take the address as a \<^verbatim>\<open>u32\<close>; the subtraction of the base wraps, so an
  address below the base gives a large index. \<^verbatim>\<open>Read\<close> takes the variable it may
  assign and returns it. \<^verbatim>\<open>Write\<close> stores the word and then runs the \<^verbatim>\<open>switch\<close>, whose
  case labels are tried here in the order of the source (in C++ they are distinct).
\<close>

definition Read :: "platform \<Rightarrow> mmio \<Rightarrow> u32 \<Rightarrow> world \<Rightarrow> mmio \<times> world" where
  "Read p var raw_addr w =
     (let addr = raw_addr - 0x1EF00000;
          index = unat (addr div 4)
      in case var of
           U32 _ \<Rightarrow>
             if index \<ge> NumIds p then (var, emit (ERROR_LOG_unknown_Read (size_bits var) addr) w)
             else (U32 (g_regs w (unat (addr div 4))), w)
         | _ \<Rightarrow> (var, emit (ERROR_LOG_unknown_Read (size_bits var) addr) w))"

definition Write :: "platform \<Rightarrow> u32 \<Rightarrow> mmio \<Rightarrow> world \<Rightarrow> world outcome" where
  "Write p raw_addr data w =
     (let addr = raw_addr - 0x1EF00000;
          index = unat (addr div 4)
      in case data of
           U32 v \<Rightarrow>
             if index \<ge> NumIds p then
               Inr (emit (ERROR_LOG_unknown_Write (size_bits data) (mmio_nat data) addr) w)
             else
               (let w1 = w\<lparr>g_regs := (g_regs w)(index := v)\<rparr> in
                if index = GPU_REG_INDEX_WORKAROUND p (fill_value p False) (0x00004 + 0x3)
                   \<or> index = GPU_REG_INDEX_WORKAROUND p (fill_value p True) (0x00008 + 0x3)
                then memory_fill p (index \<noteq> GPU_REG_INDEX (fill_value p False)) w1
                else if index = GPU_REG_INDEX (dt_trigger p) then display_transfer p w1
                else if index = GPU_REG_INDEX (cp_trigger p) then command_dispatch p w1
                else Inr w1)
         | _ \<Rightarrow> Inr (emit (ERROR_LOG_unknown_Write (size_bits data) (mmio_nat data) addr) w))"

subsection \<open>Update, Init, Shutdown\<close>

text \<open>
  \<^verbatim>\<open>Update\<close> takes the two values it reads from other units as arguments:
  \<^verbatim>\<open>Core::g_app_core->GetTicks()\<close> and \<^verbatim>\<open>HLE::g_reschedule\<close>. The tick differences are
  \<^verbatim>\<open>u64\<close> subtractions; \<^verbatim>\<open>kFrameTicks\<close> and the line period are \<^verbatim>\<open>u32\<close> and are
  widened for the comparison. The division by \<^verbatim>\<open>framebuffer_top.height\<close> stops the
  program when the height is 0.
\<close>

definition Update :: "platform \<Rightarrow> u64 \<Rightarrow> bool \<Rightarrow> world \<Rightarrow> world outcome" where
  "Update p current_ticks g_reschedule w =
     (let w1 = (if current_ticks - g_last_frame_ticks w > ucast (kFrameTicks w)
                then (emit SwapBuffers w)\<lparr>g_last_frame_ticks := current_ticks\<rparr>
                else w)
      in if g_reschedule then
           (let height = field_get (fb_height p False) (g_regs w1) in
            if height = 0 then Inl (DivideByZero, w1)
            else
              (let w2 = (if current_ticks - g_last_line_ticks w1 \<ge> ucast (kFrameTicks w1 div height)
                         then (emit (SignalInterrupt PDC0) w1)
                                \<lparr>g_cur_line := g_cur_line w1 + 1, g_last_line_ticks := current_ticks\<rparr>
                         else w1);
                   w3 = (if g_cur_line w2 \<ge> height
                         then emit (SignalInterrupt PDC1) (w2\<lparr>g_cur_line := 0\<rparr>)
                         else w2)
               in Inr w3))
         else Inr w1)"

text \<open>
  \<^verbatim>\<open>Init\<close> takes \<^verbatim>\<open>Settings::values.gpu_refresh_rate\<close> (an integer setting) and the
  tick count. The quotient \<^verbatim>\<open>268123480 / gpu_refresh_rate\<close> truncates towards zero, stops
  the program when the rate is 0, and is stored in a \<^verbatim>\<open>u32\<close>. The register members are
  assigned in the order of the source.
\<close>

definition init_assignments :: "platform \<Rightarrow> (reg_field \<times> u32) list" where
  "init_assignments p =
     [(fb_address_left1 p False, 0x181E6000),
      (fb_address_left2 p False, 0x1822C800),
      (fb_address_right1 p False, 0x18273000),
      (fb_address_right2 p False, 0x182B9800),
      (fb_address_left1 p True, 0x1848F000),
      (fb_address_right1 p True, 0x184C7800),
      (fb_width p False, 240),
      (fb_height p False, 400),
      (fb_stride p False, 3 * 240),
      (fb_color_format p False, PixelFormat_RGB8 p),
      (fb_active_fb p False, 0),
      (fb_width p True, 240),
      (fb_height p True, 320),
      (fb_stride p True, 3 * 240),
      (fb_color_format p True, PixelFormat_RGB8 p),
      (fb_active_fb p True, 0)]"

definition assign_all :: "(reg_field \<times> u32) list \<Rightarrow> regs \<Rightarrow> regs" where
  "assign_all as r = foldl (\<lambda>r (f, v). field_set f v r) r as"

definition Init :: "platform \<Rightarrow> int \<Rightarrow> u64 \<Rightarrow> world \<Rightarrow> world outcome" where
  "Init p gpu_refresh_rate ticks w =
     (if gpu_refresh_rate = 0 then Inl (DivideByZero, w)
      else
        (let cycles = (word_of_int (if 0 < gpu_refresh_rate
                                    then 268123480 div gpu_refresh_rate
                                    else - (268123480 div (- gpu_refresh_rate))) :: u32)
         in Inr (emit NOTICE_LOG_initialized
                  (w\<lparr>kFrameCycles := cycles, kFrameTicks := cycles div 3,
                     g_cur_line := 0, g_last_line_ticks := ticks, g_last_frame_ticks := ticks,
                     g_regs := assign_all (init_assignments p) (g_regs w)\<rparr>))))"

definition Shutdown :: "world \<Rightarrow> world" where
  "Shutdown w = emit NOTICE_LOG_shutdown w"

subsection \<open>A platform and a state to run the model on\<close>

text \<open>
  A register map with the fill units at words 4 and 8 (their value registers at
  \<^verbatim>\<open>0x4 + 0x3\<close> and \<^verbatim>\<open>0x8 + 0x3\<close>, as the source writes them), addresses kept in
  units of eight bytes, the identity as address translation, and 256 bytes of host memory
  at host addresses \<^verbatim>\<open>0x100\<close> to \<^verbatim>\<open>0x1FF\<close>; every other address translates to the null
  pointer.
\<close>

definition plain :: "nat \<Rightarrow> reg_field" where
  "plain i = \<lparr>word_index = i, bit_pos = 0, bit_len = 32\<rparr>"

definition bits :: "nat \<Rightarrow> nat \<Rightarrow> nat \<Rightarrow> reg_field" where
  "bits i pos len = \<lparr>word_index = i, bit_pos = pos, bit_len = len\<rparr>"

definition fill_base :: "bool \<Rightarrow> nat" where
  "fill_base i = (if i then 0x8 else 0x4)"

definition fb_base :: "bool \<Rightarrow> nat" where
  "fb_base i = (if i then 0x157 else 0x117)"

definition sample_platform :: platform where
  "sample_platform =
     \<lparr>NumIds = 0x1000,
      GPU_REG_INDEX_WORKAROUND = (\<lambda>f backup_workaround_index. backup_workaround_index),
      fill_address_start = (\<lambda>i. plain (fill_base i)),
      fill_value = (\<lambda>i. plain (fill_base i + 3)),
      GetStartAddress = (\<lambda>i r. r (fill_base i) * 8),
      GetEndAddress = (\<lambda>i r. r (fill_base i + 1) * 8),
      fb_address_left1 = (\<lambda>i. plain (fb_base i + 3)),
      fb_address_left2 = (\<lambda>i. plain (fb_base i + 4)),
      fb_address_right1 = (\<lambda>i. plain (fb_base i + 14)),
      fb_address_right2 = (\<lambda>i. plain (fb_base i + 15)),
      fb_width = (\<lambda>i. bits (fb_base i) 0 16),
      fb_height = (\<lambda>i. bits (fb_base i) 16 16),
      fb_stride = (\<lambda>i. plain (fb_base i + 13)),
      fb_color_format = (\<lambda>i. bits (fb_base i + 5) 0 3),
      fb_active_fb = (\<lambda>i. plain (fb_base i + 7)),
      dt_output_width = bits 0x302 0 16,
      dt_output_height = bits 0x302 16 16,
      dt_input_width = bits 0x303 0 16,
      dt_input_height = bits 0x303 16 16,
      dt_input_format = bits 0x304 8 3,
      dt_output_format = bits 0x304 12 3,
      dt_trigger = plain 0x306,
      GetPhysicalInputAddress = (\<lambda>r. r 0x300 * 8),
      GetPhysicalOutputAddress = (\<lambda>r. r 0x301 * 8),
      cp_size = plain 0x638,
      cp_trigger = plain 0x63C,
      GetPhysicalAddress = (\<lambda>r. r 0x63A * 8),
      PixelFormat_RGBA8 = 0,
      PixelFormat_RGB8 = 1,
      PhysicalToVirtualAddress = (\<lambda>a. a),
      GetPointer = (\<lambda>a. if 0x100 \<le> a \<and> a < 0x200 then unat a else 0)\<rparr>"

definition sample_memory :: host_mem where
  "sample_memory = (\<lambda>a. if 0x100 \<le> a \<and> a < 0x200 then Some (word_of_nat a) else None)"

definition sample_world :: world where
  "sample_world =
     \<lparr>g_regs = (\<lambda>i. 0), g_cur_line = 0, g_last_line_ticks = 0, g_last_frame_ticks = 0,
      kFrameCycles = 0, kFrameTicks = 0, memory = sample_memory, events = []\<rparr>"

text \<open>Fill unit 0 set up for the two words at host addresses \<^verbatim>\<open>0x100\<close> and \<^verbatim>\<open>0x104\<close>.\<close>

definition fill_world :: world where
  "fill_world = sample_world\<lparr>g_regs := (\<lambda>i. 0)(4 := 0x20, 5 := 0x21)\<rparr>"

subsection \<open>Runs of Update\<close>

text \<open>
  A run of \<^verbatim>\<open>Update\<close> calls, each with the tick count and the reschedule flag it finds;
  the run ends where a call stops the program.
\<close>

definition Update_seq :: "platform \<Rightarrow> (u64 \<times> bool) list \<Rightarrow> world \<Rightarrow> world outcome" where
  "Update_seq p calls w =
     for_each calls (\<lambda>(current_ticks, g_reschedule). Update p current_ticks g_reschedule) w"

definition frame_elapsed :: "u64 \<Rightarrow> world \<Rightarrow> bool" where
  "frame_elapsed current_ticks w = (current_ticks - g_last_frame_ticks w > ucast (kFrameTicks w))"

text \<open>
  Tick counts that each exceed the one before by at least \<open>d\<close>, the first of them
  counted from \<open>l\<close>.
\<close>

fun spaced :: "nat \<Rightarrow> u64 \<Rightarrow> u64 list \<Rightarrow> bool" where
  "spaced d l [] = True"
| "spaced d l (t # ts) = (unat l + d \<le> unat t \<and> spaced d t ts)"

text \<open>How often an interrupt has been signalled so far.\<close>

definition signals :: "InterruptId \<Rightarrow> world \<Rightarrow> nat" where
  "signals i w = count_list (events w) (SignalInterrupt i)"

text \<open>
  A state with a primary framebuffer of height 2 and a frame period of 100 ticks, so a
  line period of 50.
\<close>

definition timing_world :: world where
  "timing_world = sample_world\<lparr>g_regs := (\<lambda>i. 0)(0x117 := 0x00020000), kFrameTicks := 100\<rparr>"

subsection \<open>The bytes a fill touches\<close>

text \<open>
  The fill loop stores whole words from \<open>start\<close> while the pointer is below \<open>endp\<close>: it
  touches this many bytes from \<open>start\<close> on (the distance rounded up to a multiple of 4).
\<close>

definition fill_extent :: "host_ptr \<Rightarrow> host_ptr \<Rightarrow> nat" where
  "fill_extent start endp = 4 * ((endp - start + 3) div 4)"

subsection \<open>The pixels of a display transfer\<close>

text \<open>
  The byte offsets the loop body adds to the two pointers for the pixel in row \<open>y\<close>, column
  \<open>x\<close>; the pixels in the order the two loops visit them; what it means that every byte
  the transfer touches is mapped; and that no destination pixel overlaps the first three
  bytes of a source pixel or another destination pixel (\<open>apart\<close>: two runs of three bytes
  that do not meet).
\<close>

definition src_off :: "platform \<Rightarrow> regs \<Rightarrow> u32 \<Rightarrow> u32 \<Rightarrow> nat" where
  "src_off p config y x = unat (x * 4) + unat (y * field_get (dt_input_width p) config * 4)"

definition dst_off :: "platform \<Rightarrow> regs \<Rightarrow> u32 \<Rightarrow> u32 \<Rightarrow> nat" where
  "dst_off p config y x = unat (x * 3) + unat (y * field_get (dt_output_width p) config * 3)"

definition pixels :: "platform \<Rightarrow> regs \<Rightarrow> (u32 \<times> u32) list" where
  "pixels p config =
     List.product (counter_values (field_get (dt_output_height p) config))
                  (counter_values (field_get (dt_output_width p) config))"

definition apart :: "host_ptr \<Rightarrow> host_ptr \<Rightarrow> bool" where
  "apart a b = (a + 3 \<le> b \<or> b + 3 \<le> a)"

definition transfer_mapped :: "platform \<Rightarrow> regs \<Rightarrow> host_ptr \<Rightarrow> host_ptr \<Rightarrow> host_mem \<Rightarrow> bool" where
  "transfer_mapped p config sp dp m =
     (\<forall>(y, x)\<in>set (pixels p config).
        mapped m (sp + src_off p config y x) 4 \<and> mapped m (dp + dst_off p config y x) 3)"

definition transfer_separate :: "platform \<Rightarrow> regs \<Rightarrow> host_ptr \<Rightarrow> host_ptr \<Rightarrow> bool" where
  "transfer_separate p config sp dp =
     (\<forall>(y, x)\<in>set (pixels p config). \<forall>(y', x')\<in>set (pixels p config).
        apart (dp + dst_off p config y x) (sp + src_off p config y' x')
        \<and> ((y, x) \<noteq> (y', x') \<longrightarrow> apart (dp + dst_off p config y x) (dp + dst_off p config y' x')))"

text \<open>
  A 2 by 2 transfer from RGBA8 at host address \<^verbatim>\<open>0x100\<close> to RGB8 at \<^verbatim>\<open>0x180\<close>, before
  the write to the trigger register and with the trigger word stored, as the loop sees it;
  and a 2 by 1 transfer whose output format is not RGB8.
\<close>

definition transfer_world :: world where
  "transfer_world = sample_world\<lparr>g_regs := (\<lambda>i. 0)
      (0x300 := 0x20, 0x301 := 0x30, 0x302 := 0x00020002, 0x303 := 0x00020002, 0x304 := 0x1000)\<rparr>"

definition pixel_world :: world where
  "pixel_world = transfer_world\<lparr>g_regs := (g_regs transfer_world)(0x306 := 1)\<rparr>"

definition bad_format_world :: world where
  "bad_format_world = sample_world\<lparr>g_regs := (\<lambda>i. 0)
      (0x300 := 0x20, 0x301 := 0x30, 0x302 := 0x00010002, 0x303 := 0x00010002, 0x304 := 0x2000)\<rparr>"

subsection \<open>Failed address translation\<close>

text \<open>
  Three states in which an address translates to the null pointer: the start address of
  fill unit 0, its end address, and the input address of a display transfer.
\<close>

definition null_start_world :: world where
  "null_start_world = sample_world\<lparr>g_regs := (\<lambda>i. 0)(4 := 1, 5 := 0x21)\<rparr>"

definition null_end_world :: world where
  "null_end_world = sample_world\<lparr>g_regs := (\<lambda>i. 0)(4 := 0x20, 5 := 1)\<rparr>"

definition null_source_world :: world where
  "null_source_world = sample_world\<lparr>g_regs := (\<lambda>i. 0)
      (0x300 := 1, 0x301 := 0x30, 0x302 := 0x00020002, 0x303 := 0x00020002, 0x304 := 0x1000)\<rparr>"

subsection \<open>The scanline invariant\<close>

text \<open>
  The scanline counter is below the height of the primary framebuffer. \<^verbatim>\<open>Init\<close> assigns
  that height and then eight more members; the height it assigned is still there
  afterwards when the member holds at least the nine bits of 400, lies within its word, and
  shares no bit with a member assigned after it.
\<close>

definition scanline_inv :: "platform \<Rightarrow> world \<Rightarrow> bool" where
  "scanline_inv p w = (g_cur_line w < field_get (fb_height p False) (g_regs w))"

definition fields_disjoint :: "reg_field \<Rightarrow> reg_field \<Rightarrow> bool" where
  "fields_disjoint f g =
     (word_index f \<noteq> word_index g
      \<or> bit_pos f + bit_len f \<le> bit_pos g
      \<or> bit_pos g + bit_len g \<le> bit_pos f)"

definition assigned_after_height :: "platform \<Rightarrow> reg_field list" where
  "assigned_after_height p =
     [fb_stride p False, fb_color_format p False, fb_active_fb p False,
      fb_width p True, fb_height p True, fb_stride p True, fb_color_format p True,
      fb_active_fb p True]"

definition height_kept :: "platform \<Rightarrow> bool" where
  "height_kept p =
     (bit_pos (fb_height p False) + bit_len (fb_height p False) \<le> 32
      \<and> 9 \<le> bit_len (fb_height p False)
      \<and> list_all (fields_disjoint (fb_height p False)) (assigned_after_height p))"

section \<open>Properties\<close>

subsection \<open>Evaluating the sample platform\<close>

lemma sample_fields [simp]:
  "NumIds sample_platform = 0x1000"
  "GPU_REG_INDEX_WORKAROUND sample_platform f b = b"
  "fill_address_start sample_platform i = plain (fill_base i)"
  "fill_value sample_platform i = plain (fill_base i + 3)"
  "GetStartAddress sample_platform i r = r (fill_base i) * 8"
  "GetEndAddress sample_platform i r = r (fill_base i + 1) * 8"
  "dt_trigger sample_platform = plain 0x306"
  "cp_trigger sample_platform = plain 0x63C"
  "PhysicalToVirtualAddress sample_platform a = a"
  "GetPointer sample_platform a = (if 0x100 \<le> a \<and> a < 0x200 then unat a else 0)"
  by (simp_all add: sample_platform_def)

lemma plain_get [simp]: "field_get (plain i) r = r i"
  by (simp add: field_get_def plain_def take_bit_word_eq_self)

lemma index_plain [simp]: "GPU_REG_INDEX (plain i) = i"
  by (simp add: GPU_REG_INDEX_def plain_def)

lemmas run_fill =
  Write_def Let_def fill_world_def sample_world_def memory_fill_def fill_base_def
  fill_loop.simps store32_def sample_memory_def emit_def returns_def final_def


subsection \<open>Rejected accesses\<close>

lemma Write_rejected:
  "NumIds p \<le> unat ((raw_addr - 0x1EF00000) div 4) \<or> size_bits data \<noteq> 32 \<Longrightarrow>
     Write p raw_addr data w =
       Inr (w\<lparr>events := events w @ [ERROR_LOG_unknown_Write (size_bits data) (mmio_nat data) (raw_addr - 0x1EF00000)]\<rparr>)"
  by (cases data) (auto simp: Write_def Let_def emit_def)

lemma Read_rejected:
  "NumIds p \<le> unat ((raw_addr - 0x1EF00000) div 4) \<or> size_bits var \<noteq> 32 \<Longrightarrow>
     Read p var raw_addr w =
       (var, w\<lparr>events := events w @ [ERROR_LOG_unknown_Read (size_bits var) (raw_addr - 0x1EF00000)]\<rparr>)"
  by (cases var) (auto simp: Read_def Let_def emit_def)


text \<open>
  C9. A read or a write whose register index is not below \<^verbatim>\<open>NumIds()\<close>, or whose type is
  not \<^verbatim>\<open>u32\<close>, changes nothing but the log, which gains exactly one line: no register
  is stored, no handler runs, and a read leaves its variable as it was.
\<close>

theorem C9_rejected_access:
  "(NumIds p \<le> unat ((raw_addr - 0x1EF00000) div 4) \<or> size_bits data \<noteq> 32 \<longrightarrow>
      Write p raw_addr data w =
        Inr (w\<lparr>events := events w @
               [ERROR_LOG_unknown_Write (size_bits data) (mmio_nat data) (raw_addr - 0x1EF00000)]\<rparr>))
   \<and> (NumIds p \<le> unat ((raw_addr - 0x1EF00000) div 4) \<or> size_bits var \<noteq> 32 \<longrightarrow>
      Read p var raw_addr w =
        (var, w\<lparr>events := events w @
               [ERROR_LOG_unknown_Read (size_bits var) (raw_addr - 0x1EF00000)]\<rparr>))"
  using Write_rejected[of p raw_addr data w] Read_rejected[of p raw_addr var w] by blast

theorem C9_rejected_access_witness:
  "Write sample_platform 0x1EF04000 (U32 7) sample_world =
     Inr (sample_world\<lparr>events := [ERROR_LOG_unknown_Write 32 7 0x4000]\<rparr>)
   \<and> Read sample_platform (U8 1) 0x1EF00004 sample_world =
     (U8 1, sample_world\<lparr>events := [ERROR_LOG_unknown_Read 8 4]\<rparr>)"
  using C9_rejected_access[of sample_platform "0x1EF04000" "U32 7" sample_world "U32 0"]
        C9_rejected_access[of sample_platform "0x1EF00004" "U32 7" sample_world "U8 1"]
  by (simp add: sample_world_def)


subsection \<open>The handlers leave the register file alone\<close>

lemma for_each_final_inv:
  assumes "\<And>i s. P s \<Longrightarrow> P (final (body i s))" and "P s"
  shows "P (final (for_each xs body s))"
  using assms(2)
proof (induction xs arbitrary: s)
  case Nil
  then show ?case by (simp add: final_def)
next
  case (Cons i xs)
  show ?case
  proof (cases "body i s")
    case (Inl e)
    with assms(1)[OF Cons.prems, of i] show ?thesis by (simp add: final_def)
  next
    case (Inr s')
    with assms(1)[OF Cons.prems, of i] have "P s'" by (simp add: final_def)
    from Cons.IH[OF this] Inr show ?thesis by simp
  qed
qed

lemma transfer_pixel_regs:
  "g_regs (final (transfer_pixel p sp dp y x w)) = g_regs w"
  by (auto simp: transfer_pixel_def read_source_color_def write_dest_color_def and_then_def
      read_u8_def write_u8_def load8_def store8_def final_def emit_def Let_def
      split: sum.splits option.splits prod.splits if_splits)

lemma memory_fill_regs: "g_regs (final (memory_fill p u w)) = g_regs w"
  by (auto simp: memory_fill_def final_def emit_def Let_def split: sum.splits prod.splits)

lemma display_transfer_regs: "g_regs (final (display_transfer p w)) = g_regs w"
proof -
  have inner: "\<And>y s. g_regs s = g_regs w \<Longrightarrow>
      g_regs (final (for_each xs (\<lambda>x. transfer_pixel p sp dp y x) s)) = g_regs w" for xs sp dp
    by (rule for_each_final_inv) (simp_all add: transfer_pixel_regs)
  have outer: "g_regs (final (for_each ys (\<lambda>y. for_each xs (\<lambda>x. transfer_pixel p sp dp y x)) w)) = g_regs w"
    for ys xs sp dp
    by (rule for_each_final_inv) (simp_all add: inner)
  show ?thesis
  proof (cases "field_get (dt_trigger p) (g_regs w) AND 1 \<noteq> 0")
    case False
    then show ?thesis by (simp add: display_transfer_def Let_def final_def)
  next
    case True
    let ?loop = "for_each (counter_values (field_get (dt_output_height p) (g_regs w))) (\<lambda>y.
                 for_each (counter_values (field_get (dt_output_width p) (g_regs w))) (\<lambda>x.
                   transfer_pixel p (GetPointer p (PhysicalToVirtualAddress p (GetPhysicalInputAddress p (g_regs w))))
                     (GetPointer p (PhysicalToVirtualAddress p (GetPhysicalOutputAddress p (g_regs w)))) y x)) w"
    have "g_regs (final ?loop) = g_regs w" by (rule outer)
    with True show ?thesis
      by (cases ?loop)
         (auto simp: display_transfer_def and_then_def Let_def final_def emit_def)
  qed
qed

lemma command_dispatch_regs: "g_regs (final (command_dispatch p w)) = g_regs w"
  by (simp add: command_dispatch_def final_def emit_def Let_def)

lemma Write_regs:
  "unat ((raw_addr - 0x1EF00000) div 4) < NumIds p \<Longrightarrow>
   g_regs (final (Write p raw_addr (U32 v) w)) = (g_regs w)(unat ((raw_addr - 0x1EF00000) div 4) := v)"
  by (simp add: Write_def Let_def memory_fill_regs display_transfer_regs command_dispatch_regs)
     (simp add: final_def)


text \<open>
  C3. For an address whose index is below \<^verbatim>\<open>NumIds()\<close>, a \<^verbatim>\<open>u32\<close> write of \<open>v\<close> leaves
  the register file equal to the old one with \<open>v\<close> at that index, whatever handler the
  write started and however that handler ended; when the write returns, a \<^verbatim>\<open>u32\<close> read
  at the same address yields \<open>v\<close> and changes nothing.
\<close>

theorem C3_write_then_read:
  assumes "unat ((raw_addr - 0x1EF00000) div 4) < NumIds p"
  shows "g_regs (final (Write p raw_addr (U32 v) w))
           = (g_regs w)(unat ((raw_addr - 0x1EF00000) div 4) := v)
         \<and> (\<forall>w'. Write p raw_addr (U32 v) w = Inr w' \<longrightarrow>
               Read p (U32 var) raw_addr w' = (U32 v, w'))"
proof (intro conjI allI impI)
  show "g_regs (final (Write p raw_addr (U32 v) w))
           = (g_regs w)(unat ((raw_addr - 0x1EF00000) div 4) := v)"
    by (rule Write_regs[OF assms])
next
  fix w' assume "Write p raw_addr (U32 v) w = Inr w'"
  with Write_regs[OF assms, of v w]
  have "g_regs w' = (g_regs w)(unat ((raw_addr - 0x1EF00000) div 4) := v)"
    by (simp add: final_def)
  with assms show "Read p (U32 var) raw_addr w' = (U32 v, w')"
    by (simp add: Read_def Let_def)
qed

theorem C3_write_then_read_witness:
  "unat ((0x1EF0001C - 0x1EF00000 :: u32) div 4) < NumIds sample_platform
   \<and> Write sample_platform 0x1EF0001C (U32 5) fill_world
       = Inr (final (Write sample_platform 0x1EF0001C (U32 5) fill_world))
   \<and> events (final (Write sample_platform 0x1EF0001C (U32 5) fill_world))
       = [DEBUG_LOG_MemoryFill 0x100 0x108]
   \<and> g_regs (final (Write sample_platform 0x1EF0001C (U32 5) fill_world)) 7 = 5
   \<and> fst (Read sample_platform (U32 0) 0x1EF0001C
            (final (Write sample_platform 0x1EF0001C (U32 5) fill_world))) = U32 5"
proof -
  have r: "Write sample_platform 0x1EF0001C (U32 5) fill_world
       = Inr (final (Write sample_platform 0x1EF0001C (U32 5) fill_world))"
    by (simp add: run_fill)
  have e: "events (final (Write sample_platform 0x1EF0001C (U32 5) fill_world))
       = [DEBUG_LOG_MemoryFill 0x100 0x108]"
    by (simp add: run_fill)
  have i: "unat ((0x1EF0001C - 0x1EF00000 :: u32) div 4) < NumIds sample_platform"
    by simp
  from C3_write_then_read[OF i, of 5 fill_world 0] r e i show ?thesis
    by simp
qed

subsection \<open>Writing zero to a trigger register\<close>

text \<open>
  C4, as the code has it. Writing 0 to the display transfer trigger or to the command
  processor trigger stores the word and does nothing else. Writing 0 to the value register
  of a fill unit runs the fill handler: it does nothing when the unit's start address
  register is 0, and it does more than the register store when that register is not 0.
\<close>

theorem C4_zero_write:
  assumes idx: "index = unat ((raw_addr - 0x1EF00000) div 4)" "index < NumIds p"
    and w1: "w1 = w\<lparr>g_regs := (g_regs w)(index := 0)\<rparr>"
  shows
    "(index \<noteq> GPU_REG_INDEX_WORKAROUND p (fill_value p False) (0x00004 + 0x3) \<and>
      index \<noteq> GPU_REG_INDEX_WORKAROUND p (fill_value p True) (0x00008 + 0x3) \<and>
      (index = GPU_REG_INDEX (dt_trigger p) \<or> index = GPU_REG_INDEX (cp_trigger p))
        \<longrightarrow> Write p raw_addr (U32 0) w = Inr w1)
     \<and> (index = GPU_REG_INDEX_WORKAROUND p (fill_value p False) (0x00004 + 0x3) \<or>
         index = GPU_REG_INDEX_WORKAROUND p (fill_value p True) (0x00008 + 0x3)
        \<longrightarrow> Write p raw_addr (U32 0) w
              = memory_fill p (index \<noteq> GPU_REG_INDEX (fill_value p False)) w1
            \<and> (field_get (fill_address_start p (index \<noteq> GPU_REG_INDEX (fill_value p False))) (g_regs w1) = 0
                 \<longrightarrow> Write p raw_addr (U32 0) w = Inr w1)
            \<and> (field_get (fill_address_start p (index \<noteq> GPU_REG_INDEX (fill_value p False))) (g_regs w1) \<noteq> 0
                 \<longrightarrow> Write p raw_addr (U32 0) w \<noteq> Inr w1))"
proof -
  have zero: "field_get f ((g_regs w)(word_index f := 0)) AND 1 = 0" for f
    by (simp add: field_get_def)
  have dt: "index = GPU_REG_INDEX (dt_trigger p) \<Longrightarrow> display_transfer p w1 = Inr w1"
    using zero[of "dt_trigger p"] by (simp add: display_transfer_def w1 GPU_REG_INDEX_def)
  have cp: "index = GPU_REG_INDEX (cp_trigger p) \<Longrightarrow> command_dispatch p w1 = Inr w1"
    using zero[of "cp_trigger p"] by (simp add: command_dispatch_def w1 GPU_REG_INDEX_def)
  have neq: "emit e (w1\<lparr>memory := m\<rparr>) \<noteq> w1" for e m
  proof
    assume "emit e (w1\<lparr>memory := m\<rparr>) = w1"
    then have "events (emit e (w1\<lparr>memory := m\<rparr>)) = events w1" by simp
    then show False by (simp add: emit_def)
  qed
  have fired: "field_get (fill_address_start p u) (g_regs w1) \<noteq> 0 \<Longrightarrow> memory_fill p u w1 \<noteq> Inr w1" for u
    by (auto simp: memory_fill_def Let_def neq split: sum.splits prod.splits)
  let ?l0 = "GPU_REG_INDEX_WORKAROUND p (fill_value p False) (0x00004 + 0x3)"
  let ?l1 = "GPU_REG_INDEX_WORKAROUND p (fill_value p True) (0x00008 + 0x3)"
  let ?u = "index \<noteq> GPU_REG_INDEX (fill_value p False)"
  have W: "Write p raw_addr (U32 0) w =
      (if index = ?l0 \<or> index = ?l1 then memory_fill p ?u w1
       else if index = GPU_REG_INDEX (dt_trigger p) then display_transfer p w1
       else if index = GPU_REG_INDEX (cp_trigger p) then command_dispatch p w1
       else Inr w1)"
    using idx by (simp add: Write_def Let_def w1)
  have a: "index \<noteq> ?l0 \<and> index \<noteq> ?l1 \<and>
      (index = GPU_REG_INDEX (dt_trigger p) \<or> index = GPU_REG_INDEX (cp_trigger p))
        \<longrightarrow> Write p raw_addr (U32 0) w = Inr w1"
    using W dt cp by auto
  have b: "index = ?l0 \<or> index = ?l1 \<longrightarrow> Write p raw_addr (U32 0) w = memory_fill p ?u w1"
    using W by auto
  have c: "index = ?l0 \<or> index = ?l1 \<longrightarrow>
      (field_get (fill_address_start p ?u) (g_regs w1) = 0 \<longrightarrow> Write p raw_addr (U32 0) w = Inr w1)"
    using W by (auto simp: memory_fill_def)
  have d: "index = ?l0 \<or> index = ?l1 \<longrightarrow>
      (field_get (fill_address_start p ?u) (g_regs w1) \<noteq> 0 \<longrightarrow> Write p raw_addr (U32 0) w \<noteq> Inr w1)"
    using W fired[of ?u] by auto
  from a b c d show ?thesis by blast
qed

theorem C4_zero_write_witness:
  "Write sample_platform 0x1EF00C18 (U32 0) sample_world
     = Inr (sample_world\<lparr>g_regs := (g_regs sample_world)(0x306 := 0)\<rparr>)
   \<and> Write sample_platform 0x1EF018F0 (U32 0) sample_world
     = Inr (sample_world\<lparr>g_regs := (g_regs sample_world)(0x63C := 0)\<rparr>)
   \<and> Write sample_platform 0x1EF0002C (U32 0) fill_world
     = Inr (fill_world\<lparr>g_regs := (g_regs fill_world)(11 := 0)\<rparr>)
   \<and> Write sample_platform 0x1EF0001C (U32 0) fill_world
     \<noteq> Inr (fill_world\<lparr>g_regs := (g_regs fill_world)(7 := 0)\<rparr>)"
  using C4_zero_write[of "0x306" "0x1EF00C18" sample_platform _ sample_world, OF _ _ refl]
        C4_zero_write[of "0x63C" "0x1EF018F0" sample_platform _ sample_world, OF _ _ refl]
        C4_zero_write[of 11 "0x1EF0002C" sample_platform _ fill_world, OF _ _ refl]
        C4_zero_write[of 7 "0x1EF0001C" sample_platform _ fill_world, OF _ _ refl]
  by (simp add: run_fill)

text \<open>
  The claim as stated fails for the fill value registers: with the start address register
  of unit 0 set, writing 0 to its value register fills the range with zero bytes and logs
  the fill.
\<close>

theorem C4_zero_write_counterexample:
  "memory fill_world 0x101 = Some 1
   \<and> memory (final (Write sample_platform 0x1EF0001C (U32 0) fill_world)) 0x101 = Some 0
   \<and> events (final (Write sample_platform 0x1EF0001C (U32 0) fill_world))
       = [DEBUG_LOG_MemoryFill 0x100 0x108]"
  by (simp add: run_fill bswap32_def bytes_u32_def)

subsection \<open>Frame and scanline timing\<close>

lemma sample_fb [simp]:
  "fb_height sample_platform i = bits (fb_base i) 16 16"
  by (simp add: sample_platform_def)

lemmas run_update =
  Update_seq_def Update_def Let_def timing_world_def sample_world_def emit_def final_def
  field_get_def bits_def fb_base_def signals_def word_le_nat_alt word_less_nat_alt


lemma Update_swaps:
  "count_list (events (final (Update p t r w))) SwapBuffers
     = count_list (events w) SwapBuffers + (if frame_elapsed t w then 1 else 0)"
  by (simp add: Update_def frame_elapsed_def Let_def final_def emit_def)

lemma Update_last_frame:
  "g_last_frame_ticks (final (Update p t r w)) = (if frame_elapsed t w then t else g_last_frame_ticks w)"
  by (simp add: Update_def frame_elapsed_def Let_def final_def emit_def)

lemma Update_kFrameTicks: "kFrameTicks (final (Update p t r w)) = kFrameTicks w"
  by (simp add: Update_def Let_def final_def emit_def)

lemma Update_not_elapsed_after:
  "\<not> frame_elapsed t (final (Update p t r w))"
  using Update_last_frame[of p t r w] Update_kFrameTicks[of p t r w]
  by (cases "frame_elapsed t w") (simp_all add: frame_elapsed_def)

lemma Update_seq_swaps:
  "count_list (events (final (Update_seq p (map (\<lambda>r. (t, r)) rs) w))) SwapBuffers
     \<le> count_list (events w) SwapBuffers + (if frame_elapsed t w then 1 else 0)"
proof (induction rs arbitrary: w)
  case Nil
  then show ?case by (simp add: Update_seq_def final_def)
next
  case (Cons r rs)
  show ?case
  proof (cases "Update p t r w")
    case (Inl e)
    then have "final (Update_seq p (map (\<lambda>r. (t, r)) (r # rs)) w) = final (Update p t r w)"
      by (simp add: Update_seq_def final_def)
    then show ?thesis by (simp add: Update_swaps)
  next
    case (Inr w')
    then have w': "w' = final (Update p t r w)" by (simp add: final_def)
    from Inr have "final (Update_seq p (map (\<lambda>r. (t, r)) (r # rs)) w)
        = final (Update_seq p (map (\<lambda>r. (t, r)) rs) w')"
      by (simp add: Update_seq_def)
    with Cons.IH[of w'] Update_swaps[of p t r w] Update_not_elapsed_after[of t p r w]
    show ?thesis by (auto simp: w' split: if_splits)
  qed
qed

lemma frame_elapsed_nat:
  assumes "g_last_frame_ticks w \<le> current_ticks"
  shows "frame_elapsed current_ticks w
           = (unat (kFrameTicks w) < unat current_ticks - unat (g_last_frame_ticks w))"
proof -
  have "unat (kFrameTicks w) < 2 ^ 64"
    using unsigned_less[of "kFrameTicks w", where 'a=nat] by simp
  then have "unat (ucast (kFrameTicks w) :: u64) = unat (kFrameTicks w)"
    by (simp add: unsigned_ucast_eq take_bit_nat_eq_self)
  with unat_sub[OF assms] show ?thesis
    by (simp add: frame_elapsed_def word_less_nat_alt)
qed

text \<open>
  C5. One call of \<^verbatim>\<open>Update\<close> calls \<^verbatim>\<open>SwapBuffers\<close> once when
  \<^verbatim>\<open>current_ticks - g_last_frame_ticks\<close> (the \<^verbatim>\<open>u64\<close> difference) is greater than
  \<^verbatim>\<open>kFrameTicks\<close> and not at all otherwise, whether the call returns or stops at the
  division; a swap leaves \<^verbatim>\<open>g_last_frame_ticks\<close> equal to \<^verbatim>\<open>current_ticks\<close>; as long as
  the tick count has not gone back behind \<^verbatim>\<open>g_last_frame_ticks\<close>, the \<^verbatim>\<open>u64\<close>
  difference is the difference of the two numbers; and a run of calls that all see the
  same tick count, with any reschedule flags, swaps at most once.
\<close>

theorem C5_buffer_swap:
  "count_list (events (final (Update p current_ticks g_reschedule w))) SwapBuffers
     = count_list (events w) SwapBuffers
       + (if current_ticks - g_last_frame_ticks w > ucast (kFrameTicks w) then 1 else 0)
   \<and> (current_ticks - g_last_frame_ticks w > ucast (kFrameTicks w) \<longrightarrow>
        g_last_frame_ticks (final (Update p current_ticks g_reschedule w)) = current_ticks)
   \<and> (g_last_frame_ticks w \<le> current_ticks \<longrightarrow>
        (current_ticks - g_last_frame_ticks w > ucast (kFrameTicks w))
          = (unat current_ticks - unat (g_last_frame_ticks w) > unat (kFrameTicks w)))
   \<and> count_list (events (final (Update_seq p (map (\<lambda>r. (current_ticks, r)) rs) w))) SwapBuffers
        \<le> count_list (events w) SwapBuffers + 1"
  using Update_swaps[of p current_ticks g_reschedule w]
        Update_last_frame[of p current_ticks g_reschedule w]
        Update_seq_swaps[of p current_ticks rs w]
        frame_elapsed_nat[of w current_ticks]
  by (auto simp: frame_elapsed_def split: if_splits)

theorem C5_buffer_swap_witness:
  "(101 :: u64) - g_last_frame_ticks timing_world > ucast (kFrameTicks timing_world)
   \<and> g_last_frame_ticks timing_world \<le> 101
   \<and> unat (101 :: u64) - unat (g_last_frame_ticks timing_world) > unat (kFrameTicks timing_world)
   \<and> g_last_frame_ticks (final (Update sample_platform 101 False timing_world)) = 101
   \<and> count_list (events (final (Update sample_platform 101 False timing_world))) SwapBuffers = 1
   \<and> count_list (events (final (Update_seq sample_platform (map (\<lambda>r. (101, r)) [False, True, False]) timing_world))) SwapBuffers = 1"
  using C5_buffer_swap[of sample_platform 101 False timing_world "[False, True, False]"]
  by (simp add: run_update)


lemma line_elapsed:
  fixes d :: u32 and t l :: u64
  assumes "unat l + unat d \<le> unat t"
  shows "ucast d \<le> t - l"
proof -
  from assms have "l \<le> t" by (simp add: word_le_nat_alt)
  then have "unat (t - l) = unat t - unat l" by (rule unat_sub)
  moreover have "unat d < 2 ^ 64"
    using unsigned_less[of d, where 'a=nat] by simp
  then have "unat (ucast d :: u64) = unat d"
    by (simp add: unsigned_ucast_eq take_bit_nat_eq_self)
  ultimately show ?thesis using assms by (simp add: word_le_nat_alt)
qed

lemma Update_line_step:
  assumes H: "field_get (fb_height p False) (g_regs w) = H" "H \<noteq> 0"
    and sp: "unat (g_last_line_ticks w) + unat (kFrameTicks w div H) \<le> unat t"
  shows "\<exists>w'. Update p t True w = Inr w' \<and> g_regs w' = g_regs w \<and> kFrameTicks w' = kFrameTicks w
           \<and> g_last_line_ticks w' = t
           \<and> g_cur_line w' = (if H \<le> g_cur_line w + 1 then 0 else g_cur_line w + 1)
           \<and> signals PDC1 w' = signals PDC1 w + (if H \<le> g_cur_line w + 1 then 1 else 0)
           \<and> signals PDC0 w' = signals PDC0 w + 1"
  using H line_elapsed[OF sp]
  by (simp add: Update_def Let_def emit_def signals_def)

lemma Update_seq_lines:
  assumes "field_get (fb_height p False) (g_regs w) = H"
    and "spaced (unat (kFrameTicks w div H)) (g_last_line_ticks w) ts"
    and "ts \<noteq> []" and "unat (g_cur_line w) + length ts = unat H"
  shows "\<exists>w'. Update_seq p (map (\<lambda>t. (t, True)) ts) w = Inr w' \<and> g_cur_line w' = 0
           \<and> signals PDC1 w' = signals PDC1 w + 1
           \<and> signals PDC0 w' = signals PDC0 w + length ts"
  using assms
proof (induction ts arbitrary: w)
  case Nil
  then show ?case by simp
next
  case (Cons t ts)
  from Cons.prems have H0: "H \<noteq> 0" by (auto simp: unat_eq_0)
  from Cons.prems have sp: "unat (g_last_line_ticks w) + unat (kFrameTicks w div H) \<le> unat t"
    by simp
  from Update_line_step[OF Cons.prems(1) H0 sp]
  obtain w1 where w1: "Update p t True w = Inr w1" "g_regs w1 = g_regs w"
      "kFrameTicks w1 = kFrameTicks w" "g_last_line_ticks w1 = t"
      "g_cur_line w1 = (if H \<le> g_cur_line w + 1 then 0 else g_cur_line w + 1)"
      "signals PDC1 w1 = signals PDC1 w + (if H \<le> g_cur_line w + 1 then 1 else 0)"
      "signals PDC0 w1 = signals PDC0 w + 1"
    by blast
  from Cons.prems have lt: "unat (g_cur_line w) < unat H" by simp
  moreover have "unat H < 2 ^ 32"
    using unsigned_less[of H, where 'a=nat] by simp
  ultimately have "unat (g_cur_line w) + unat (1 :: u32) < 2 ^ LENGTH(32)" by simp
  then have suc: "unat (g_cur_line w + 1) = unat (g_cur_line w) + 1"
    by (simp only: unat_add_lem) simp
  show ?case
  proof (cases "ts = []")
    case True
    with Cons.prems suc have "H \<le> g_cur_line w + 1" by (simp add: word_le_nat_alt)
    with w1 True show ?thesis by (simp add: Update_seq_def)
  next
    case False
    with Cons.prems suc have small: "\<not> H \<le> g_cur_line w + 1"
      by (cases ts) (simp_all add: word_le_nat_alt)
    have "\<exists>w'. Update_seq p (map (\<lambda>t. (t, True)) ts) w1 = Inr w' \<and> g_cur_line w' = 0
           \<and> signals PDC1 w' = signals PDC1 w1 + 1
           \<and> signals PDC0 w' = signals PDC0 w1 + length ts"
      using Cons.prems w1 small suc False by (intro Cons.IH) simp_all
    with w1 small show ?thesis by (auto simp: Update_seq_def)
  qed
qed

text \<open>
  C6. From scanline 0, with primary framebuffer height \<open>H\<close> (not 0), \<open>H\<close> calls of
  \<^verbatim>\<open>Update\<close> under a reschedule, each at least one line period \<^verbatim>\<open>kFrameTicks / H\<close>
  after the one before (the first after \<^verbatim>\<open>g_last_line_ticks\<close>), all return; afterwards
  the scanline is 0 again and PDC1 has been signalled exactly once more. A call without a
  reschedule returns and signals neither PDC0 nor PDC1, whatever the tick count.
\<close>

theorem C6_scanline_timing:
  "(g_cur_line w = 0 \<and> field_get (fb_height p False) (g_regs w) = H \<and> H \<noteq> 0
      \<and> length ts = unat H \<and> spaced (unat (kFrameTicks w div H)) (g_last_line_ticks w) ts
     \<longrightarrow> (\<exists>w'. Update_seq p (map (\<lambda>t. (t, True)) ts) w = Inr w' \<and> g_cur_line w' = 0
           \<and> signals PDC1 w' = signals PDC1 w + 1))
   \<and> (\<exists>w'. Update p current_ticks False w = Inr w'
           \<and> signals PDC0 w' = signals PDC0 w \<and> signals PDC1 w' = signals PDC1 w)"
proof (intro conjI impI)
  assume a: "g_cur_line w = 0 \<and> field_get (fb_height p False) (g_regs w) = H \<and> H \<noteq> 0
      \<and> length ts = unat H \<and> spaced (unat (kFrameTicks w div H)) (g_last_line_ticks w) ts"
  then have "ts \<noteq> []" by (auto simp: unat_eq_0)
  with a Update_seq_lines[of p w H ts]
  show "\<exists>w'. Update_seq p (map (\<lambda>t. (t, True)) ts) w = Inr w' \<and> g_cur_line w' = 0
           \<and> signals PDC1 w' = signals PDC1 w + 1"
    by auto
next
  show "\<exists>w'. Update p current_ticks False w = Inr w'
           \<and> signals PDC0 w' = signals PDC0 w \<and> signals PDC1 w' = signals PDC1 w"
    by (simp add: Update_def Let_def emit_def signals_def)
qed

theorem C6_scanline_timing_witness:
  "g_cur_line timing_world = 0
   \<and> field_get (fb_height sample_platform False) (g_regs timing_world) = 2
   \<and> length [50, 100 :: u64] = unat (2 :: u32)
   \<and> spaced (unat (kFrameTicks timing_world div 2)) (g_last_line_ticks timing_world) [50, 100]
   \<and> g_cur_line (final (Update_seq sample_platform (map (\<lambda>t. (t, True)) [50, 100]) timing_world)) = 0
   \<and> signals PDC1 (final (Update_seq sample_platform (map (\<lambda>t. (t, True)) [50, 100]) timing_world)) = 1
   \<and> signals PDC0 (final (Update sample_platform 1000 False timing_world)) = 0
   \<and> events (final (Update sample_platform 1000 False timing_world)) = [SwapBuffers]"
  using C6_scanline_timing[of timing_world sample_platform 2 "[50, 100]" 1000]
  by (simp add: run_update)

subsection \<open>Memory fill\<close>

lemma bytes_u32_split:
  "bytes_u32 (ucast v) (ucast (drop_bit 8 v)) (ucast (drop_bit 16 v)) (ucast (drop_bit 24 v)) = v"
proof (rule bit_word_eqI)
  fix n assume n: "n < LENGTH(32)"
  consider "n < 8" | "8 \<le> n" "n < 16" | "16 \<le> n" "n < 24" | "24 \<le> n" by linarith
  then show "bit (bytes_u32 (ucast v) (ucast (drop_bit 8 v)) (ucast (drop_bit 16 v)) (ucast (drop_bit 24 v))) n = bit v n"
    using n by cases (auto simp: bytes_u32_def bit_simps)
qed

lemma bytes_u32_bytes:
  "ucast (bytes_u32 b0 b1 b2 b3) = b0"
  "ucast (drop_bit 8 (bytes_u32 b0 b1 b2 b3)) = b1"
  "ucast (drop_bit 16 (bytes_u32 b0 b1 b2 b3)) = b2"
  "ucast (drop_bit 24 (bytes_u32 b0 b1 b2 b3)) = b3"
  by (rule bit_word_eqI; auto simp: bytes_u32_def bit_simps dest: bit_imp_le_length)+

lemma bswap32_bswap32: "bswap32 (bswap32 v) = v"
  by (simp add: bswap32_def bytes_u32_bytes bytes_u32_split)

lemma bswap32_example: "bswap32 0x11223344 = 0x44332211"
  by (simp add: bswap32_def bytes_u32_def)

lemma load32_cong:
  "m' p = m p \<Longrightarrow> m' (p + 1) = m (p + 1) \<Longrightarrow> m' (p + 2) = m (p + 2) \<Longrightarrow> m' (p + 3) = m (p + 3)
     \<Longrightarrow> load32 m' p = load32 m p"
  by (simp add: load32_def)

lemma store32_load32: "store32 m p v = Inr m' \<Longrightarrow> load32 m' p = Some v"
  by (auto simp: store32_def load32_def bytes_u32_split split: if_splits)

lemma store32_frame: "store32 m p v = Inr m' \<Longrightarrow> a < p \<or> p + 4 \<le> a \<Longrightarrow> m' a = m a"
  by (auto simp: store32_def split: if_splits)

lemma store32_dom: "store32 m p v = Inr m' \<Longrightarrow> (m' a = None) = (m a = None)"
  by (auto simp: store32_def split: if_splits)

lemma store32_mapped: "mapped m p 4 \<Longrightarrow> \<exists>m'. store32 m p v = Inr m'"
proof -
  assume a: "mapped m p 4"
  have "m (p + k) \<noteq> None" if "k < 4" for k using a that unfolding mapped_def by blast
  from this[of 0] this[of 1] this[of 2] this[of 3] show ?thesis by (simp add: store32_def)
qed

lemma fill_extent_step:
  assumes "ptr < endp"
  shows "fill_extent ptr endp = 4 + fill_extent (ptr + 4) endp"
proof (cases "4 \<le> endp - ptr")
  case True
  then obtain e where e: "endp - ptr = 4 + e"
    using le_Suc_ex by blast
  then have e': "endp - (ptr + 4) = e" by linarith
  have "(4 + e + 3) div 4 = (e + 3) div 4 + 1" by linarith
  then show ?thesis unfolding fill_extent_def e e' by linarith
next
  case False
  with assms have z: "endp - (ptr + 4) = 0" by linarith
  from False assms have "(endp - ptr + 3) div 4 = 1" by linarith
  then show ?thesis unfolding fill_extent_def z by simp
qed
lemma fill_loop_result:
  assumes "mapped m ptr (fill_extent ptr endp)"
  shows "\<exists>m'. fill_loop ptr endp v m = Inr m'
           \<and> (\<forall>k. ptr + 4 * k < endp \<longrightarrow> load32 m' (ptr + 4 * k) = Some v)
           \<and> (\<forall>a. a < ptr \<longrightarrow> m' a = m a)
           \<and> (\<forall>a. (m' a = None) = (m a = None))"
  using assms
proof (induction ptr endp v m rule: fill_loop.induct)
  case (1 ptr endp v m)
  show ?case
  proof (cases "ptr < endp")
    case False
    then show ?thesis by (simp add: fill_loop.simps)
  next
    case True
    then have ext: "fill_extent ptr endp = 4 + fill_extent (ptr + 4) endp"
      by (rule fill_extent_step)
    with "1.prems" have "mapped m ptr 4" by (simp add: mapped_def)
    then obtain m1 where m1: "store32 m ptr v = Inr m1"
      using store32_mapped by blast
    have "mapped m1 (ptr + 4) (fill_extent (ptr + 4) endp)"
      unfolding mapped_def
    proof (intro allI impI)
      fix k assume "k < fill_extent (ptr + 4) endp"
      with ext have "4 + k < fill_extent ptr endp" by simp
      with "1.prems" have "m (ptr + (4 + k)) \<noteq> None" unfolding mapped_def by blast
      with store32_dom[OF m1] show "m1 (ptr + 4 + k) \<noteq> None" by (simp add: add.assoc)
    qed
    from "1.IH"[OF True m1 this]
    obtain m' where m': "fill_loop (ptr + 4) endp v m1 = Inr m'"
      "\<forall>k. ptr + 4 + 4 * k < endp \<longrightarrow> load32 m' (ptr + 4 + 4 * k) = Some v"
      "\<forall>a. a < ptr + 4 \<longrightarrow> m' a = m1 a"
      "\<forall>a. (m' a = None) = (m1 a = None)"
      by blast
    have res: "fill_loop ptr endp v m = Inr m'"
      using True m1 m'(1) by (subst fill_loop.simps) simp
    have words: "load32 m' (ptr + 4 * k) = Some v" if "ptr + 4 * k < endp" for k
    proof (cases k)
      case 0
      have "load32 m' ptr = load32 m1 ptr"
        by (rule load32_cong) (simp_all add: m'(3))
      with store32_load32[OF m1] 0 show ?thesis by simp
    next
      case (Suc j)
      with that m'(2) show ?thesis by (simp add: add.assoc)
    qed
    have frame: "m' a = m a" if "a < ptr" for a
      using that m'(3) store32_frame[OF m1, of a] by simp
    have dom: "(m' a = None) = (m a = None)" for a
      using m'(4) store32_dom[OF m1] by simp
    from res words frame dom show ?thesis by blast
  qed
qed

lemma fill_loop_words:
  assumes "mapped m start (fill_extent start endp)"
  shows "\<exists>m'. fill_loop start endp v m = Inr m'
           \<and> (\<forall>a. start \<le> a \<and> a < endp \<and> 4 dvd (a - start) \<longrightarrow> load32 m' a = Some v)"
proof -
  from fill_loop_result[OF assms, of v]
  obtain m' where m': "fill_loop start endp v m = Inr m'"
    "\<forall>k. start + 4 * k < endp \<longrightarrow> load32 m' (start + 4 * k) = Some v"
    by blast
  have "load32 m' a = Some v" if "start \<le> a" "a < endp" "4 dvd (a - start)" for a
  proof -
    from that(3) obtain k where "a - start = 4 * k" by (auto simp: dvd_def)
    with that(1) have "a = start + 4 * k" by simp
    with that(2) m'(2) show ?thesis by simp
  qed
  with m'(1) show ?thesis by blast
qed

text \<open>
  C2. A \<^verbatim>\<open>u32\<close> write that reaches the fill case runs the fill of unit
  \<^verbatim>\<open>is_second_filler\<close>. With \<open>start\<close> and \<open>endp\<close> the host pointers the two addresses
  translate to, and \<open>V\<close> the unit's value register: when the start address register is
  not 0 and the bytes the loop touches are mapped, the write returns and every word of
  \<open>[start, endp)\<close>, counted in steps of four bytes from \<open>start\<close>, holds \<open>bswap32 V\<close>
  (for a word-aligned \<open>start\<close> these are the aligned words of the range); when the start
  address register is 0, the write stores the register and nothing else, so host memory is
  as before.
\<close>

theorem C2_memory_fill:
  assumes idx: "index = unat ((raw_addr - 0x1EF00000) div 4)" "index < NumIds p"
    and lab: "index = GPU_REG_INDEX_WORKAROUND p (fill_value p False) (0x00004 + 0x3)
              \<or> index = GPU_REG_INDEX_WORKAROUND p (fill_value p True) (0x00008 + 0x3)"
    and u: "is_second_filler = (index \<noteq> GPU_REG_INDEX (fill_value p False))"
    and w1: "w1 = w\<lparr>g_regs := (g_regs w)(index := data)\<rparr>"
    and st: "start = GetPointer p (PhysicalToVirtualAddress p (GetStartAddress p is_second_filler (g_regs w1)))"
    and en: "endp = GetPointer p (PhysicalToVirtualAddress p (GetEndAddress p is_second_filler (g_regs w1)))"
    and V: "V = field_get (fill_value p is_second_filler) (g_regs w1)"
  shows
    "(field_get (fill_address_start p is_second_filler) (g_regs w1) \<noteq> 0
        \<and> mapped (memory w) start (fill_extent start endp)
      \<longrightarrow> (\<exists>w'. Write p raw_addr (U32 data) w = Inr w'
             \<and> (\<forall>a. start \<le> a \<and> a < endp \<and> 4 dvd (a - start)
                    \<longrightarrow> load32 (memory w') a = Some (bswap32 V))))
     \<and> (field_get (fill_address_start p is_second_filler) (g_regs w1) = 0
      \<longrightarrow> Write p raw_addr (U32 data) w = Inr w1)"
proof -
  have W: "Write p raw_addr (U32 data) w = memory_fill p is_second_filler w1"
    using idx lab by (auto simp: Write_def Let_def w1 u)
  have a: "\<exists>w'. Write p raw_addr (U32 data) w = Inr w'
             \<and> (\<forall>a. start \<le> a \<and> a < endp \<and> 4 dvd (a - start)
                    \<longrightarrow> load32 (memory w') a = Some (bswap32 V))"
    if nz: "field_get (fill_address_start p is_second_filler) (g_regs w1) \<noteq> 0"
      and mp: "mapped (memory w) start (fill_extent start endp)"
  proof -
    from fill_loop_words[OF mp, of "bswap32 V"]
    obtain m' where m': "fill_loop start endp (bswap32 V) (memory w) = Inr m'"
      "\<forall>a. start \<le> a \<and> a < endp \<and> 4 dvd (a - start) \<longrightarrow> load32 m' a = Some (bswap32 V)"
      by blast
    have "memory w1 = memory w" by (simp add: w1)
    with nz m'(1) have "memory_fill p is_second_filler w1
        = Inr (emit (DEBUG_LOG_MemoryFill (GetStartAddress p is_second_filler (g_regs w1))
                                          (GetEndAddress p is_second_filler (g_regs w1)))
                    (w1\<lparr>memory := m'\<rparr>))"
      by (simp add: memory_fill_def Let_def st[symmetric] en[symmetric] V[symmetric])
    with W m'(2) show ?thesis by (simp add: emit_def)
  qed
  have b: "Write p raw_addr (U32 data) w = Inr w1"
    if "field_get (fill_address_start p is_second_filler) (g_regs w1) = 0"
    using W that by (simp add: memory_fill_def)
  from a b show ?thesis by blast
qed

lemma mapped_sample: "mapped sample_memory 0x100 8"
  by (simp add: mapped_def sample_memory_def)

theorem C2_memory_fill_witness:
  "field_get (fill_address_start sample_platform False) ((g_regs fill_world)(7 := 5)) \<noteq> 0
   \<and> mapped (memory fill_world) 0x100 (fill_extent 0x100 0x108)
   \<and> Write sample_platform 0x1EF0001C (U32 5) fill_world
       = Inr (final (Write sample_platform 0x1EF0001C (U32 5) fill_world))
   \<and> load32 (memory (final (Write sample_platform 0x1EF0001C (U32 5) fill_world))) 0x100 = Some (bswap32 5)
   \<and> load32 (memory (final (Write sample_platform 0x1EF0001C (U32 5) fill_world))) 0x104 = Some (bswap32 5)
   \<and> memory (final (Write sample_platform 0x1EF0001C (U32 5) fill_world)) 0x103 = Some 5
   \<and> field_get (fill_address_start sample_platform True) ((g_regs fill_world)(11 := 5)) = 0
   \<and> Write sample_platform 0x1EF0002C (U32 5) fill_world
       = Inr (fill_world\<lparr>g_regs := (g_regs fill_world)(11 := 5)\<rparr>)"
  using C2_memory_fill[of 7 "0x1EF0001C" sample_platform False _ fill_world 5 _ _ _,
          OF _ _ _ _ refl refl refl refl]
        C2_memory_fill[of 11 "0x1EF0002C" sample_platform True _ fill_world 5 _ _ _,
          OF _ _ _ _ refl refl refl refl]
        mapped_sample
  by (simp add: run_fill fill_extent_def load32_def bswap32_def bytes_u32_def)

subsection \<open>Display transfer\<close>

lemma for_each_append:
  "for_each (xs @ ys) body s =
     (case for_each xs body s of Inl e \<Rightarrow> Inl e | Inr s' \<Rightarrow> for_each ys body s')"
  by (induction xs arbitrary: s) (auto split: sum.splits)

lemma for_each_map: "for_each (map f xs) body s = for_each xs (\<lambda>i. body (f i)) s"
  by (induction xs arbitrary: s) (auto split: sum.splits)

lemma for_each_product:
  "for_each ys (\<lambda>y. for_each xs (body y)) s = for_each (List.product ys xs) (\<lambda>(y, x). body y x) s"
  by (induction ys arbitrary: s) (auto simp: for_each_append for_each_map split: sum.splits)

lemma mapped_byte: "mapped m a n \<Longrightarrow> k < n \<Longrightarrow> \<exists>b. m (a + k) = Some b"
  by (auto simp: mapped_def)

lemma transfer_pixel_copies:
  assumes fmt: "field_get (dt_input_format p) (g_regs w) = PixelFormat_RGBA8 p"
      "field_get (dt_output_format p) (g_regs w) = PixelFormat_RGB8 p"
    and s: "s = sp + src_off p (g_regs w) y x" and d: "d = dp + dst_off p (g_regs w) y x"
    and ms: "mapped (memory w) s 4" and md: "mapped (memory w) d 3"
  shows "\<exists>w'. transfer_pixel p sp dp y x w = Inr w' \<and> g_regs w' = g_regs w \<and> events w' = events w
           \<and> (\<forall>k<3. memory w' (d + k) = memory w (s + k))
           \<and> (\<forall>a. a < d \<or> d + 3 \<le> a \<longrightarrow> memory w' a = memory w a)
           \<and> (\<forall>a. (memory w' a = None) = (memory w a = None))"
proof -
  from mapped_byte[OF ms, of 0] mapped_byte[OF ms, of 1] mapped_byte[OF ms, of 2] mapped_byte[OF ms, of 3]
  obtain b0 b1 b2 b3 where b: "memory w s = Some b0" "memory w (s + 1) = Some b1"
      "memory w (s + 2) = Some b2" "memory w (s + 3) = Some b3"
    by auto
  from mapped_byte[OF md, of 0] mapped_byte[OF md, of 1] mapped_byte[OF md, of 2]
  obtain c0 c1 c2 where c: "memory w d = Some c0" "memory w (d + 1) = Some c1"
      "memory w (d + 2) = Some c2"
    by auto
  have rd: "read_source_color p sp y x w
      = Inr (\<lparr>color_r = uint b0, color_g = uint b1, color_b = uint b2, color_a = uint b3\<rparr>, w)"
    using fmt(1) b
    by (simp add: read_source_color_def Let_def and_then_def read_u8_def load8_def
        s[unfolded src_off_def, simplified add.assoc[symmetric], symmetric])
  let ?w' = "w\<lparr>memory := (memory w)(d \<mapsto> b0, d + 1 \<mapsto> b1, d + 2 \<mapsto> b2)\<rparr>"
  have wr: "write_dest_color p dp y x
      \<lparr>color_r = uint b0, color_g = uint b1, color_b = uint b2, color_a = uint b3\<rparr> w = Inr ?w'"
    using fmt(2) c
    by (simp add: write_dest_color_def Let_def and_then_def write_u8_def store8_def
        d[unfolded dst_off_def, simplified add.assoc[symmetric], symmetric])
  have res: "transfer_pixel p sp dp y x w = Inr ?w'"
    by (simp add: transfer_pixel_def rd wr and_then_def)
  have "\<forall>k<3. memory ?w' (d + k) = memory w (s + k)"
  proof (intro allI impI)
    fix k :: nat assume "k < 3"
    then consider "k = 0" | "k = 1" | "k = 2" by linarith
    then show "memory ?w' (d + k) = memory w (s + k)"
      using b by cases simp_all
  qed
  moreover have "\<forall>a. a < d \<or> d + 3 \<le> a \<longrightarrow> memory ?w' a = memory w a" by auto
  moreover have "\<forall>a. (memory ?w' a = None) = (memory w a = None)" using c by auto
  ultimately show ?thesis using res by simp
qed

lemma mapped_dom: "\<forall>a. (m' a = None) = (m a = None) \<Longrightarrow> mapped m' a n = mapped m a n"
  by (simp add: mapped_def)

lemma transfer_list:
  assumes cfg: "g_regs w = config"
    and fmt: "field_get (dt_input_format p) config = PixelFormat_RGBA8 p"
      "field_get (dt_output_format p) config = PixelFormat_RGB8 p"
    and S: "\<And>q. S q = sp + src_off p config (fst q) (snd q)"
    and D: "\<And>q. D q = dp + dst_off p config (fst q) (snd q)"
    and mp: "\<forall>q\<in>set ps. mapped (memory w) (S q) 4 \<and> mapped (memory w) (D q) 3"
    and dist: "distinct ps"
    and sep: "\<forall>q\<in>set ps. \<forall>q'\<in>set ps. apart (D q) (S q') \<and> (q \<noteq> q' \<longrightarrow> apart (D q) (D q'))"
  shows "\<exists>w'. for_each ps (\<lambda>(y, x). transfer_pixel p sp dp y x) w = Inr w'
           \<and> g_regs w' = config \<and> events w' = events w
           \<and> (\<forall>q\<in>set ps. \<forall>k<3. memory w' (D q + k) = memory w (S q + k))
           \<and> (\<forall>a. (\<forall>q\<in>set ps. a < D q \<or> D q + 3 \<le> a) \<longrightarrow> memory w' a = memory w a)
           \<and> (\<forall>a. (memory w' a = None) = (memory w a = None))"
  using cfg mp dist sep
proof (induction ps arbitrary: w)
  case Nil
  then show ?case by simp
next
  case (Cons q ps)
  obtain y x where q: "q = (y, x)" by (cases q)
  from Cons.prems(2) have mq: "mapped (memory w) (S q) 4" "mapped (memory w) (D q) 3" by simp_all
  from transfer_pixel_copies[of p w "S q" sp y x "D q" dp] fmt mq Cons.prems(1)
  obtain w1 where w1: "transfer_pixel p sp dp y x w = Inr w1" "g_regs w1 = config"
      "events w1 = events w"
      "\<forall>k<3. memory w1 (D q + k) = memory w (S q + k)"
      "\<forall>a. a < D q \<or> D q + 3 \<le> a \<longrightarrow> memory w1 a = memory w a"
      "\<forall>a. (memory w1 a = None) = (memory w a = None)"
    by (auto simp: S D q)
  have mp1: "\<forall>q\<in>set ps. mapped (memory w1) (S q) 4 \<and> mapped (memory w1) (D q) 3"
    using Cons.prems(2) by (simp add: mapped_dom[OF w1(6)])
  have "\<exists>w'. for_each ps (\<lambda>(y, x). transfer_pixel p sp dp y x) w1 = Inr w'
           \<and> g_regs w' = config \<and> events w' = events w1
           \<and> (\<forall>q\<in>set ps. \<forall>k<3. memory w' (D q + k) = memory w1 (S q + k))
           \<and> (\<forall>a. (\<forall>q\<in>set ps. a < D q \<or> D q + 3 \<le> a) \<longrightarrow> memory w' a = memory w1 a)
           \<and> (\<forall>a. (memory w' a = None) = (memory w1 a = None))"
    using w1(2) mp1 Cons.prems(3,4) by (intro Cons.IH) simp_all
  then obtain w' where w': "for_each ps (\<lambda>(y, x). transfer_pixel p sp dp y x) w1 = Inr w'"
      "g_regs w' = config" "events w' = events w1"
      "\<forall>q\<in>set ps. \<forall>k<3. memory w' (D q + k) = memory w1 (S q + k)"
      "\<forall>a. (\<forall>q\<in>set ps. a < D q \<or> D q + 3 \<le> a) \<longrightarrow> memory w' a = memory w1 a"
      "\<forall>a. (memory w' a = None) = (memory w1 a = None)"
    by blast
  have run: "for_each (q # ps) (\<lambda>(y, x). transfer_pixel p sp dp y x) w = Inr w'"
    using w1(1) w'(1) by (simp add: q)
  have head: "memory w' (D q + k) = memory w (S q + k)" if "k < 3" for k
  proof -
    have "\<forall>q'\<in>set ps. D q + k < D q' \<or> D q' + 3 \<le> D q + k"
    proof
      fix q' assume q': "q' \<in> set ps"
      with Cons.prems(3) have "q \<noteq> q'" by auto
      with Cons.prems(4) q' have "apart (D q) (D q')" by simp
      with that show "D q + k < D q' \<or> D q' + 3 \<le> D q + k" by (auto simp: apart_def)
    qed
    with w'(5) have "memory w' (D q + k) = memory w1 (D q + k)" by blast
    with w1(4) that show ?thesis by simp
  qed
  have tail: "memory w' (D q' + k) = memory w (S q' + k)" if "q' \<in> set ps" "k < 3" for q' k
  proof -
    from Cons.prems(4) that(1) have "apart (D q) (S q')" by simp
    with that(2) have "S q' + k < D q \<or> D q + 3 \<le> S q' + k" by (auto simp: apart_def)
    with w1(5) have "memory w1 (S q' + k) = memory w (S q' + k)" by blast
    with w'(4) that show ?thesis by simp
  qed
  have frame: "memory w' a = memory w a" if "\<forall>q'\<in>set (q # ps). a < D q' \<or> D q' + 3 \<le> a" for a
    using that w'(5) w1(5) by auto
  have dom: "(memory w' a = None) = (memory w a = None)" for a
    using w'(6) w1(6) by simp
  from run w'(2) w'(3) w1(3) head tail frame dom show ?case
    by (intro exI[of _ w']) auto
qed

lemma unat_counter: "i < unat (b :: u32) \<Longrightarrow> unat (word_of_nat i :: u32) = i"
  by (rule le_unat_uoi[of _ b]) simp

lemma distinct_counter_values: "distinct (counter_values b)"
  unfolding counter_values_def
proof (subst distinct_map, intro conjI)
  show "distinct [0..<unat b]" by simp
  show "inj_on (word_of_nat :: nat \<Rightarrow> u32) (set [0..<unat b])"
    by (rule inj_onI) (metis atLeastLessThan_iff set_upt unat_counter)
qed

lemma set_counter_values: "set (counter_values b) = {x. x < b}"
proof (intro set_eqI iffI)
  fix x assume "x \<in> set (counter_values b)"
  then obtain i where "i < unat b" "x = word_of_nat i" by (auto simp: counter_values_def)
  then show "x \<in> {x. x < b}" by (simp add: word_less_nat_alt unat_counter)
next
  fix x assume "x \<in> {x. x < b}"
  then have "unat x < unat b" by (simp add: word_less_nat_alt)
  moreover have "x = word_of_nat (unat x)" by simp
  ultimately show "x \<in> set (counter_values b)"
    unfolding counter_values_def by (metis atLeastLessThan_iff image_eqI le0 set_map set_upt)
qed

lemma distinct_pixels: "distinct (pixels p config)"
  by (simp add: pixels_def distinct_product distinct_counter_values)

lemma set_pixels:
  "set (pixels p config)
     = {(y, x). y < field_get (dt_output_height p) config \<and> x < field_get (dt_output_width p) config}"
  by (auto simp: pixels_def set_counter_values)

lemma display_transfer_loop:
  "display_transfer p w =
     (if field_get (dt_trigger p) (g_regs w) AND 1 \<noteq> 0 then
        and_then
          (for_each (pixels p (g_regs w)) (\<lambda>(y, x).
             transfer_pixel p
               (GetPointer p (PhysicalToVirtualAddress p (GetPhysicalInputAddress p (g_regs w))))
               (GetPointer p (PhysicalToVirtualAddress p (GetPhysicalOutputAddress p (g_regs w)))) y x) w)
          (\<lambda>w'. Inr (emit (DEBUG_LOG_DisplayTriggerTransfer
                 [field_get (dt_output_height p) (g_regs w) * field_get (dt_output_width p) (g_regs w) * 4,
                  GetPhysicalInputAddress p (g_regs w),
                  field_get (dt_input_width p) (g_regs w), field_get (dt_input_height p) (g_regs w),
                  GetPhysicalOutputAddress p (g_regs w),
                  field_get (dt_output_width p) (g_regs w), field_get (dt_output_height p) (g_regs w),
                  field_get (dt_output_format p) (g_regs w)]) w'))
      else Inr w)"
  by (simp add: display_transfer_def Let_def pixels_def for_each_product)

lemma Write_display_transfer:
  assumes "index = unat ((raw_addr - 0x1EF00000) div 4)" "index < NumIds p"
    and "index \<noteq> GPU_REG_INDEX_WORKAROUND p (fill_value p False) (0x00004 + 0x3)"
    and "index \<noteq> GPU_REG_INDEX_WORKAROUND p (fill_value p True) (0x00008 + 0x3)"
    and "index = GPU_REG_INDEX (dt_trigger p)"
  shows "Write p raw_addr (U32 data) w = display_transfer p (w\<lparr>g_regs := (g_regs w)(index := data)\<rparr>)"
  using assms by (simp add: Write_def Let_def)

text \<open>
  C1. For a \<^verbatim>\<open>u32\<close> write that reaches the display transfer case with bit 0 of the
  trigger set, input format RGBA8 and output format RGB8:
  \<^item> one round of the loop body, for row \<open>y\<close> and column \<open>x\<close>, run in any state with these
    registers in which the four source bytes at offset \<^verbatim>\<open>x*4 + y*input_width*4\<close> and the
    three destination bytes at offset \<^verbatim>\<open>x*3 + y*output_width*3\<close> are mapped, returns and
    leaves in the three destination bytes the first three source bytes, in order, as they
    were when the round began (the fourth is dropped);
  \<^item> when every byte the transfer touches is mapped and no destination pixel overlaps a
    source pixel or another destination pixel, the write returns and, for every row
    \<open>y < output_height\<close> and column \<open>x < output_width\<close>, the three destination bytes hold
    what the first three bytes of the source pixel held before the write.
\<close>

theorem C1_display_transfer_rgba8_rgb8:
  assumes idx: "index = unat ((raw_addr - 0x1EF00000) div 4)" "index < NumIds p"
    and lab: "index \<noteq> GPU_REG_INDEX_WORKAROUND p (fill_value p False) (0x00004 + 0x3)"
      "index \<noteq> GPU_REG_INDEX_WORKAROUND p (fill_value p True) (0x00008 + 0x3)"
      "index = GPU_REG_INDEX (dt_trigger p)"
    and cfg: "config = (g_regs w)(index := data)"
    and trig: "field_get (dt_trigger p) config AND 1 \<noteq> 0"
    and fmt: "field_get (dt_input_format p) config = PixelFormat_RGBA8 p"
      "field_get (dt_output_format p) config = PixelFormat_RGB8 p"
    and sp: "source_pointer = GetPointer p (PhysicalToVirtualAddress p (GetPhysicalInputAddress p config))"
    and dp: "dest_pointer = GetPointer p (PhysicalToVirtualAddress p (GetPhysicalOutputAddress p config))"
  shows
    "(\<forall>v y x. g_regs v = config
         \<and> mapped (memory v) (source_pointer + src_off p config y x) 4
         \<and> mapped (memory v) (dest_pointer + dst_off p config y x) 3
       \<longrightarrow> (\<exists>v'. transfer_pixel p source_pointer dest_pointer y x v = Inr v'
              \<and> (\<forall>k<3. memory v' (dest_pointer + dst_off p config y x + k)
                          = memory v (source_pointer + src_off p config y x + k))))
     \<and> (transfer_mapped p config source_pointer dest_pointer (memory w)
         \<and> transfer_separate p config source_pointer dest_pointer
       \<longrightarrow> (\<exists>w'. Write p raw_addr (U32 data) w = Inr w'
              \<and> (\<forall>y x. y < field_get (dt_output_height p) config
                       \<and> x < field_get (dt_output_width p) config
                    \<longrightarrow> (\<forall>k<3. memory w' (dest_pointer + dst_off p config y x + k)
                                = memory w (source_pointer + src_off p config y x + k)))))"
proof (intro conjI allI impI)
  fix v :: world and y x :: u32
  assume a: "g_regs v = config
         \<and> mapped (memory v) (source_pointer + src_off p config y x) 4
         \<and> mapped (memory v) (dest_pointer + dst_off p config y x) 3"
  from transfer_pixel_copies[of p v "source_pointer + src_off p config y x" source_pointer y x
      "dest_pointer + dst_off p config y x" dest_pointer] fmt a
  show "\<exists>v'. transfer_pixel p source_pointer dest_pointer y x v = Inr v'
              \<and> (\<forall>k<3. memory v' (dest_pointer + dst_off p config y x + k)
                          = memory v (source_pointer + src_off p config y x + k))"
    by auto
next
  assume a: "transfer_mapped p config source_pointer dest_pointer (memory w)
         \<and> transfer_separate p config source_pointer dest_pointer"
  let ?w1 = "w\<lparr>g_regs := config\<rparr>"
  let ?S = "\<lambda>q. source_pointer + src_off p config (fst q) (snd q)"
  let ?D = "\<lambda>q. dest_pointer + dst_off p config (fst q) (snd q)"
  have mp: "\<forall>q\<in>set (pixels p config). mapped (memory ?w1) (?S q) 4 \<and> mapped (memory ?w1) (?D q) 3"
    using a by (auto simp: transfer_mapped_def)
  have sep: "\<forall>q\<in>set (pixels p config). \<forall>q'\<in>set (pixels p config).
      apart (?D q) (?S q') \<and> (q \<noteq> q' \<longrightarrow> apart (?D q) (?D q'))"
    using a by (fastforce simp: transfer_separate_def)
  from transfer_list[of ?w1 config p ?S source_pointer ?D dest_pointer "pixels p config",
      OF _ fmt _ _ mp distinct_pixels sep]
  obtain w' where w': "for_each (pixels p config) (\<lambda>(y, x). transfer_pixel p source_pointer dest_pointer y x) ?w1 = Inr w'"
      "\<forall>q\<in>set (pixels p config). \<forall>k<3. memory w' (?D q + k) = memory ?w1 (?S q + k)"
    by auto
  have "Write p raw_addr (U32 data) w = display_transfer p ?w1"
    using Write_display_transfer[OF idx lab] cfg by simp
  with trig w'(1) obtain e where W: "Write p raw_addr (U32 data) w = Inr (emit e w')"
    by (simp add: display_transfer_loop and_then_def sp dp)
  have "memory (emit e w') (dest_pointer + dst_off p config y x + k)
          = memory w (source_pointer + src_off p config y x + k)"
    if "y < field_get (dt_output_height p) config" "x < field_get (dt_output_width p) config" "k < 3"
    for y x k
  proof -
    from that have "(y, x) \<in> set (pixels p config)" by (simp add: set_pixels)
    with w'(2) that(3) show ?thesis by (fastforce simp: emit_def)
  qed
  with W show "\<exists>w'. Write p raw_addr (U32 data) w = Inr w'
              \<and> (\<forall>y x. y < field_get (dt_output_height p) config
                       \<and> x < field_get (dt_output_width p) config
                    \<longrightarrow> (\<forall>k<3. memory w' (dest_pointer + dst_off p config y x + k)
                                = memory w (source_pointer + src_off p config y x + k)))"
    by blast
qed

lemma sample_dt [simp]:
  "dt_output_width sample_platform = bits 0x302 0 16"
  "dt_output_height sample_platform = bits 0x302 16 16"
  "dt_input_width sample_platform = bits 0x303 0 16"
  "dt_input_height sample_platform = bits 0x303 16 16"
  "dt_input_format sample_platform = bits 0x304 8 3"
  "dt_output_format sample_platform = bits 0x304 12 3"
  "GetPhysicalInputAddress sample_platform r = r 0x300 * 8"
  "GetPhysicalOutputAddress sample_platform r = r 0x301 * 8"
  "PixelFormat_RGBA8 sample_platform = 0"
  "PixelFormat_RGB8 sample_platform = 1"
  by (simp_all add: sample_platform_def)

lemma bits_get [simp]: "field_get (bits i pos len) r = take_bit len (drop_bit pos (r i))"
  by (simp add: field_get_def bits_def)

lemma pixels_transfer_world:
  "pixels sample_platform ((g_regs transfer_world)(0x306 := 1)) = [(0, 0), (0, 1), (1, 0), (1, 1)]"
  by (simp add: pixels_def counter_values_def upt_conv_Cons transfer_world_def sample_world_def)

lemma mapped_sample_memory: "0x100 \<le> a \<Longrightarrow> a + n \<le> 0x200 \<Longrightarrow> mapped sample_memory a n"
  by (auto simp: mapped_def sample_memory_def)

lemma transfer_world_mapped:
  "transfer_mapped sample_platform ((g_regs transfer_world)(0x306 := 1)) 0x100 0x180 (memory transfer_world)"
  unfolding transfer_mapped_def pixels_transfer_world
  by (simp add: transfer_world_def sample_world_def src_off_def dst_off_def mapped_sample_memory)

lemma transfer_world_separate:
  "transfer_separate sample_platform ((g_regs transfer_world)(0x306 := 1)) 0x100 0x180"
  unfolding transfer_separate_def pixels_transfer_world
  by (simp add: transfer_world_def sample_world_def src_off_def dst_off_def apart_def)

theorem C1_display_transfer_rgba8_rgb8_witness:
  "field_get (dt_trigger sample_platform) ((g_regs transfer_world)(0x306 := 1)) AND 1 \<noteq> 0
   \<and> field_get (dt_input_format sample_platform) ((g_regs transfer_world)(0x306 := 1))
       = PixelFormat_RGBA8 sample_platform
   \<and> field_get (dt_output_format sample_platform) ((g_regs transfer_world)(0x306 := 1))
       = PixelFormat_RGB8 sample_platform
   \<and> dst_off sample_platform ((g_regs transfer_world)(0x306 := 1)) 1 1 = 9
   \<and> src_off sample_platform ((g_regs transfer_world)(0x306 := 1)) 1 1 = 12
   \<and> mapped (memory pixel_world) (0x100 + 12) 4
   \<and> mapped (memory pixel_world) (0x180 + 9) 3
   \<and> transfer_pixel sample_platform 0x100 0x180 1 1 pixel_world
       = Inr (final (transfer_pixel sample_platform 0x100 0x180 1 1 pixel_world))
   \<and> memory (final (transfer_pixel sample_platform 0x100 0x180 1 1 pixel_world)) (0x180 + 9 + 1)
       = memory pixel_world (0x100 + 12 + 1)
   \<and> transfer_mapped sample_platform ((g_regs transfer_world)(0x306 := 1)) 0x100 0x180 (memory transfer_world)
   \<and> transfer_separate sample_platform ((g_regs transfer_world)(0x306 := 1)) 0x100 0x180
   \<and> Write sample_platform 0x1EF00C18 (U32 1) transfer_world
       = Inr (final (Write sample_platform 0x1EF00C18 (U32 1) transfer_world))
   \<and> memory (final (Write sample_platform 0x1EF00C18 (U32 1) transfer_world)) (0x180 + 9)
       = memory transfer_world (0x100 + 12)
   \<and> memory (final (Write sample_platform 0x1EF00C18 (U32 1) transfer_world)) (0x180 + 9 + 2)
       = Some 0x0E"
proof -
  let ?config = "(g_regs transfer_world)(0x306 := 1)"
  let ?W = "Write sample_platform 0x1EF00C18 (U32 1) transfer_world"
  let ?P = "transfer_pixel sample_platform 0x100 0x180 1 1 pixel_world"
  have cfg: "field_get (dt_trigger sample_platform) ?config AND 1 \<noteq> 0"
    "field_get (dt_input_format sample_platform) ?config = PixelFormat_RGBA8 sample_platform"
    "field_get (dt_output_format sample_platform) ?config = PixelFormat_RGB8 sample_platform"
    by (simp_all add: transfer_world_def sample_world_def)
  have off: "dst_off sample_platform ?config 1 1 = 9" "src_off sample_platform ?config 1 1 = 12"
    by (simp_all add: transfer_world_def sample_world_def src_off_def dst_off_def)
  have ptr: "(0x100 :: nat) = GetPointer sample_platform (PhysicalToVirtualAddress sample_platform
        (GetPhysicalInputAddress sample_platform ?config))"
    "(0x180 :: nat) = GetPointer sample_platform (PhysicalToVirtualAddress sample_platform
        (GetPhysicalOutputAddress sample_platform ?config))"
    by (simp_all add: transfer_world_def sample_world_def)
  have idx: "(0x306 :: nat) = unat ((0x1EF00C18 - 0x1EF00000 :: u32) div 4)"
    "(0x306 :: nat) < NumIds sample_platform"
    "(0x306 :: nat) \<noteq> GPU_REG_INDEX_WORKAROUND sample_platform (fill_value sample_platform False) (0x00004 + 0x3)"
    "(0x306 :: nat) \<noteq> GPU_REG_INDEX_WORKAROUND sample_platform (fill_value sample_platform True) (0x00008 + 0x3)"
    "(0x306 :: nat) = GPU_REG_INDEX (dt_trigger sample_platform)"
    by simp_all
  note T = C1_display_transfer_rgba8_rgb8[of "0x306" "0x1EF00C18" sample_platform _ transfer_world 1
      "0x100" "0x180", OF idx refl cfg ptr]
  \<comment> \<open>one round of the loop body\<close>
  have mpx: "mapped (memory pixel_world) (0x100 + 12) 4" "mapped (memory pixel_world) (0x180 + 9) 3"
    by (simp_all add: pixel_world_def transfer_world_def sample_world_def mapped_sample_memory)
  have "g_regs pixel_world = ?config" by (simp add: pixel_world_def)
  with T[THEN conjunct1, rule_format, of pixel_world 1 1] mpx off
  obtain v' where v': "?P = Inr v'"
      "\<forall>k<3. memory v' (0x180 + 9 + k) = memory pixel_world (0x100 + 12 + k)"
    by auto
  from v'(1) v'(2)[rule_format, of 1]
  have one: "?P = Inr (final ?P)" "memory (final ?P) (0x180 + 9 + 1) = memory pixel_world (0x100 + 12 + 1)"
    by (simp_all add: final_def)
  \<comment> \<open>the whole transfer\<close>
  from T[THEN conjunct2, THEN mp, OF conjI[OF transfer_world_mapped transfer_world_separate]]
  obtain w' where w': "?W = Inr w'"
      "\<forall>y x. y < field_get (dt_output_height sample_platform) ?config
             \<and> x < field_get (dt_output_width sample_platform) ?config
            \<longrightarrow> (\<forall>k<3. memory w' (0x180 + dst_off sample_platform ?config y x + k)
                          = memory transfer_world (0x100 + src_off sample_platform ?config y x + k))"
    by blast
  have lt: "(1 :: u32) < field_get (dt_output_height sample_platform) ?config"
    "(1 :: u32) < field_get (dt_output_width sample_platform) ?config"
    by (simp_all add: transfer_world_def sample_world_def word_less_nat_alt)
  from w'(2)[rule_format, OF conjI[OF lt]]
  have px: "\<forall>k<3. memory w' (0x180 + 9 + k) = memory transfer_world (0x100 + 12 + k)"
    by (simp add: off)
  from w'(1) have run: "?W = Inr (final ?W)" by (simp add: final_def)
  from px[rule_format, of 0] px[rule_format, of 2] w'(1)
  have all: "memory (final ?W) (0x180 + 9) = memory transfer_world (0x100 + 12)"
    "memory (final ?W) (0x180 + 9 + 2) = memory transfer_world (0x100 + 12 + 2)"
    by (simp_all add: final_def)
  have "memory transfer_world (0x100 + 12 + 2) = Some 0x0E"
    by (simp add: transfer_world_def sample_world_def sample_memory_def)
  with all have all': "memory (final ?W) (0x180 + 9) = memory transfer_world (0x100 + 12)"
    "memory (final ?W) (0x180 + 9 + 2) = Some 0x0E"
    by simp_all
  from cfg off mpx one transfer_world_mapped transfer_world_separate run all' show ?thesis
    by blast
qed

lemma for_each_count:
  assumes step: "\<And>i s. i \<in> set xs \<Longrightarrow> I s \<Longrightarrow> \<exists>s'. body i s = Inr s' \<and> I s' \<and> f s' = f s + c"
    and "I s"
  shows "\<exists>s'. for_each xs body s = Inr s' \<and> I s' \<and> f s' = f s + length xs * (c :: nat)"
  using assms
proof (induction xs arbitrary: s)
  case Nil
  then show ?case by simp
next
  case (Cons i xs)
  from Cons.prems(1)[of i s] Cons.prems(2)
  obtain s1 where s1: "body i s = Inr s1" "I s1" "f s1 = f s + c" by auto
  have "\<exists>s'. for_each xs body s1 = Inr s' \<and> I s' \<and> f s' = f s1 + length xs * c"
    using Cons.prems(1) s1(2) by (intro Cons.IH) auto
  with s1 show ?case by auto
qed

lemma transfer_pixel_skips:
  assumes "field_get (dt_output_format p) (g_regs w) \<noteq> PixelFormat_RGB8 p"
  shows "g_regs (final (transfer_pixel p sp dp y x w)) = g_regs w
         \<and> memory (final (transfer_pixel p sp dp y x w)) = memory w"
  using assms
  by (auto simp: transfer_pixel_def read_source_color_def write_dest_color_def and_then_def
      read_u8_def load8_def final_def emit_def Let_def
      split: sum.splits option.splits prod.splits if_splits)

lemma transfer_pixel_logs:
  assumes "field_get (dt_output_format p) (g_regs w) \<noteq> PixelFormat_RGB8 p"
    and "field_get (dt_input_format p) (g_regs w) \<noteq> PixelFormat_RGBA8 p
         \<or> mapped (memory w) (sp + src_off p (g_regs w) y x) 4"
  shows "\<exists>w'. transfer_pixel p sp dp y x w = Inr w' \<and> g_regs w' = g_regs w \<and> memory w' = memory w
           \<and> count_list (events w') (ERROR_LOG_unknown_destination_format (field_get (dt_output_format p) (g_regs w)))
              = count_list (events w) (ERROR_LOG_unknown_destination_format (field_get (dt_output_format p) (g_regs w))) + 1"
proof (cases "field_get (dt_input_format p) (g_regs w) = PixelFormat_RGBA8 p")
  case False
  with assms(1) show ?thesis
    by (simp add: transfer_pixel_def read_source_color_def write_dest_color_def and_then_def
        emit_def Let_def)
next
  case True
  with assms(2) have ms: "mapped (memory w) (sp + src_off p (g_regs w) y x) 4" by simp
  from mapped_byte[OF ms, of 0] mapped_byte[OF ms, of 1] mapped_byte[OF ms, of 2] mapped_byte[OF ms, of 3]
  obtain b0 b1 b2 b3 where "memory w (sp + src_off p (g_regs w) y x) = Some b0"
      "memory w (sp + src_off p (g_regs w) y x + 1) = Some b1"
      "memory w (sp + src_off p (g_regs w) y x + 2) = Some b2"
      "memory w (sp + src_off p (g_regs w) y x + 3) = Some b3"
    by auto
  with True assms(1) show ?thesis
    by (simp add: transfer_pixel_def read_source_color_def write_dest_color_def and_then_def
        read_u8_def load8_def emit_def Let_def src_off_def add.assoc)
qed

lemma length_pixels:
  "length (pixels p config)
     = unat (field_get (dt_output_height p) config) * unat (field_get (dt_output_width p) config)"
  by (simp add: pixels_def counter_values_def)

text \<open>
  C7, as the code has it. For a \<^verbatim>\<open>u32\<close> write that reaches the display transfer case
  with bit 0 of the trigger set and an output format other than RGB8: host memory is as
  before, however the write ends; and when the source is not read (input format other than
  RGBA8) or every source pixel is mapped, the write returns and has logged the unknown
  destination format once for each pixel, \<^verbatim>\<open>output_height * output_width\<close> times.
\<close>

theorem C7_unsupported_output_format:
  assumes idx: "index = unat ((raw_addr - 0x1EF00000) div 4)" "index < NumIds p"
    and lab: "index \<noteq> GPU_REG_INDEX_WORKAROUND p (fill_value p False) (0x00004 + 0x3)"
      "index \<noteq> GPU_REG_INDEX_WORKAROUND p (fill_value p True) (0x00008 + 0x3)"
      "index = GPU_REG_INDEX (dt_trigger p)"
    and cfg: "config = (g_regs w)(index := data)"
    and trig: "field_get (dt_trigger p) config AND 1 \<noteq> 0"
    and fmt: "field_get (dt_output_format p) config \<noteq> PixelFormat_RGB8 p"
    and sp: "source_pointer = GetPointer p (PhysicalToVirtualAddress p (GetPhysicalInputAddress p config))"
    and e: "e = ERROR_LOG_unknown_destination_format (field_get (dt_output_format p) config)"
  shows
    "memory (final (Write p raw_addr (U32 data) w)) = memory w
     \<and> (field_get (dt_input_format p) config \<noteq> PixelFormat_RGBA8 p
          \<or> (\<forall>(y, x)\<in>set (pixels p config). mapped (memory w) (source_pointer + src_off p config y x) 4)
        \<longrightarrow> (\<exists>w'. Write p raw_addr (U32 data) w = Inr w' \<and> memory w' = memory w
               \<and> count_list (events w') e
                  = count_list (events w) e
                    + unat (field_get (dt_output_height p) config)
                      * unat (field_get (dt_output_width p) config)))"
proof (intro conjI impI)
  let ?w1 = "w\<lparr>g_regs := config\<rparr>"
  let ?dp = "GetPointer p (PhysicalToVirtualAddress p (GetPhysicalOutputAddress p config))"
  let ?body = "\<lambda>(y, x). transfer_pixel p source_pointer ?dp y x"
  let ?loop = "for_each (pixels p config) ?body ?w1"
  have W: "Write p raw_addr (U32 data) w = display_transfer p ?w1"
    using Write_display_transfer[OF idx lab] cfg by simp
  have D: "display_transfer p ?w1 = and_then ?loop (\<lambda>w'. Inr (emit
      (DEBUG_LOG_DisplayTriggerTransfer
                 [field_get (dt_output_height p) config * field_get (dt_output_width p) config * 4,
                  GetPhysicalInputAddress p config,
                  field_get (dt_input_width p) config, field_get (dt_input_height p) config,
                  GetPhysicalOutputAddress p config,
                  field_get (dt_output_width p) config, field_get (dt_output_height p) config,
                  field_get (dt_output_format p) config]) w'))"
    using trig by (simp add: display_transfer_loop sp)
  have inv: "g_regs (final ?loop) = config \<and> memory (final ?loop) = memory w"
  proof (rule for_each_final_inv[where P = "\<lambda>s. g_regs s = config \<and> memory s = memory w"])
    fix i :: "u32 \<times> u32" and s :: world
    assume "g_regs s = config \<and> memory s = memory w"
    with fmt transfer_pixel_skips[of p s source_pointer ?dp "fst i" "snd i"]
    show "g_regs (final (?body i s)) = config \<and> memory (final (?body i s)) = memory w"
      by (simp add: case_prod_beta)
  qed simp
  then show "memory (final (Write p raw_addr (U32 data) w)) = memory w"
    unfolding W D by (cases ?loop) (auto simp: and_then_def final_def emit_def)
  assume src: "field_get (dt_input_format p) config \<noteq> PixelFormat_RGBA8 p
          \<or> (\<forall>(y, x)\<in>set (pixels p config). mapped (memory w) (source_pointer + src_off p config y x) 4)"
  have "\<exists>s'. ?loop = Inr s' \<and> (g_regs s' = config \<and> memory s' = memory w)
          \<and> count_list (events s') e = count_list (events ?w1) e + length (pixels p config) * 1"
  proof (rule for_each_count[where I = "\<lambda>s. g_regs s = config \<and> memory s = memory w"])
    fix i :: "u32 \<times> u32" and s :: world
    assume i: "i \<in> set (pixels p config)" and s: "g_regs s = config \<and> memory s = memory w"
    from src i s have "field_get (dt_input_format p) (g_regs s) \<noteq> PixelFormat_RGBA8 p
         \<or> mapped (memory s) (source_pointer + src_off p (g_regs s) (fst i) (snd i)) 4"
      by (auto simp: case_prod_beta)
    from transfer_pixel_logs[OF _ this, of ?dp] fmt s
    show "\<exists>s'. ?body i s = Inr s' \<and> (g_regs s' = config \<and> memory s' = memory w)
            \<and> count_list (events s') e = count_list (events s) e + 1"
      by (auto simp: case_prod_beta e)
  qed simp
  then obtain s' where s': "?loop = Inr s'" "memory s' = memory w"
      "count_list (events s') e = count_list (events w) e + length (pixels p config)"
    by auto
  then show "\<exists>w'. Write p raw_addr (U32 data) w = Inr w' \<and> memory w' = memory w
               \<and> count_list (events w') e
                  = count_list (events w) e
                    + unat (field_get (dt_output_height p) config)
                      * unat (field_get (dt_output_width p) config)"
    unfolding W D by (simp add: and_then_def emit_def e length_pixels)
qed

lemmas run_bad_format =
  Write_def Let_def bad_format_world_def sample_world_def display_transfer_def counter_values_def
  transfer_pixel_def read_source_color_def write_dest_color_def and_then_def read_u8_def
  write_u8_def load8_def store8_def sample_memory_def emit_def final_def upt_conv_Cons

theorem C7_unsupported_output_format_witness:
  "field_get (dt_trigger sample_platform) ((g_regs bad_format_world)(0x306 := 1)) AND 1 \<noteq> 0
   \<and> field_get (dt_output_format sample_platform) ((g_regs bad_format_world)(0x306 := 1))
       \<noteq> PixelFormat_RGB8 sample_platform
   \<and> pixels sample_platform ((g_regs bad_format_world)(0x306 := 1)) = [(0, 0), (0, 1)]
   \<and> mapped (memory bad_format_world) (0x100 + src_off sample_platform ((g_regs bad_format_world)(0x306 := 1)) 0 0) 4
   \<and> mapped (memory bad_format_world) (0x100 + src_off sample_platform ((g_regs bad_format_world)(0x306 := 1)) 0 1) 4
   \<and> Write sample_platform 0x1EF00C18 (U32 1) bad_format_world
       = Inr (final (Write sample_platform 0x1EF00C18 (U32 1) bad_format_world))
   \<and> memory (final (Write sample_platform 0x1EF00C18 (U32 1) bad_format_world)) = memory bad_format_world
   \<and> count_list (events (final (Write sample_platform 0x1EF00C18 (U32 1) bad_format_world)))
         (ERROR_LOG_unknown_destination_format 2) = 2"
proof -
  let ?config = "(g_regs bad_format_world)(0x306 := 1)"
  let ?W = "Write sample_platform 0x1EF00C18 (U32 1) bad_format_world"
  have idx: "(0x306 :: nat) = unat ((0x1EF00C18 - 0x1EF00000 :: u32) div 4)"
    "(0x306 :: nat) < NumIds sample_platform"
    "(0x306 :: nat) \<noteq> GPU_REG_INDEX_WORKAROUND sample_platform (fill_value sample_platform False) (0x00004 + 0x3)"
    "(0x306 :: nat) \<noteq> GPU_REG_INDEX_WORKAROUND sample_platform (fill_value sample_platform True) (0x00008 + 0x3)"
    "(0x306 :: nat) = GPU_REG_INDEX (dt_trigger sample_platform)"
    by simp_all
  have cfg: "field_get (dt_trigger sample_platform) ?config AND 1 \<noteq> 0"
    "field_get (dt_output_format sample_platform) ?config \<noteq> PixelFormat_RGB8 sample_platform"
    by (simp_all add: bad_format_world_def sample_world_def)
  have px: "pixels sample_platform ?config = [(0, 0), (0, 1)]"
    by (simp add: pixels_def counter_values_def upt_conv_Cons bad_format_world_def sample_world_def)
  have mpx: "mapped (memory bad_format_world) (0x100 + src_off sample_platform ?config 0 0) 4"
    "mapped (memory bad_format_world) (0x100 + src_off sample_platform ?config 0 1) 4"
    by (simp_all add: bad_format_world_def sample_world_def src_off_def mapped_sample_memory)
  have ptr: "(0x100 :: nat) = GetPointer sample_platform (PhysicalToVirtualAddress sample_platform
        (GetPhysicalInputAddress sample_platform ?config))"
    by (simp add: bad_format_world_def sample_world_def)
  have src: "\<forall>(y, x)\<in>set (pixels sample_platform ?config).
      mapped (memory bad_format_world) (0x100 + src_off sample_platform ?config y x) 4"
    using mpx by (simp add: px)
  note T = C7_unsupported_output_format[of "0x306" "0x1EF00C18" sample_platform _ bad_format_world 1
      "0x100" _, OF idx refl cfg ptr refl]
  from T[THEN conjunct2, THEN mp, OF disjI2, OF src]
  obtain w' where w': "?W = Inr w'" "memory w' = memory bad_format_world"
      "count_list (events w') (ERROR_LOG_unknown_destination_format (field_get (dt_output_format sample_platform) ?config))
         = count_list (events bad_format_world)
             (ERROR_LOG_unknown_destination_format (field_get (dt_output_format sample_platform) ?config))
           + unat (field_get (dt_output_height sample_platform) ?config)
             * unat (field_get (dt_output_width sample_platform) ?config)"
    by blast
  from w'(3) have n: "count_list (events w') (ERROR_LOG_unknown_destination_format 2) = 2"
    by (simp add: bad_format_world_def sample_world_def)
  from w'(1) have run: "?W = Inr (final ?W)" "final ?W = w'" by (simp_all add: final_def)
  from cfg px mpx run w'(2) n show ?thesis by simp
qed

text \<open>
  The claim as stated fails on the count: a transfer of two pixels logs the unknown
  destination format twice, not once.
\<close>

theorem C7_unsupported_output_format_counterexample:
  "field_get (dt_output_format sample_platform) ((g_regs bad_format_world)(0x306 := 1)) = 2
   \<and> PixelFormat_RGB8 sample_platform = 1
   \<and> events (final (Write sample_platform 0x1EF00C18 (U32 1) bad_format_world))
     = [ERROR_LOG_unknown_destination_format 2, ERROR_LOG_unknown_destination_format 2,
        DEBUG_LOG_DisplayTriggerTransfer [8, 0x100, 2, 1, 0x180, 2, 1, 2]]"
  by (simp add: run_bad_format)

subsection \<open>Failed address translation\<close>

text \<open>
  C8, as the code has it. \<^verbatim>\<open>Memory::GetPointer\<close> hands back a pointer, and the code
  uses it unchecked. When the end address of a fill translates to the null pointer, the
  loop condition \<^verbatim>\<open>ptr < end\<close> is false at once: the write returns, host memory is as
  before, and the log gains at most the usual fill line (this unit logs no failure).
\<close>

theorem C8_null_end_fill:
  assumes idx: "index = unat ((raw_addr - 0x1EF00000) div 4)" "index < NumIds p"
    and lab: "index = GPU_REG_INDEX_WORKAROUND p (fill_value p False) (0x00004 + 0x3)
              \<or> index = GPU_REG_INDEX_WORKAROUND p (fill_value p True) (0x00008 + 0x3)"
    and u: "is_second_filler = (index \<noteq> GPU_REG_INDEX (fill_value p False))"
    and w1: "w1 = w\<lparr>g_regs := (g_regs w)(index := data)\<rparr>"
    and en: "GetPointer p (PhysicalToVirtualAddress p (GetEndAddress p is_second_filler (g_regs w1))) = 0"
  shows "\<exists>w'. Write p raw_addr (U32 data) w = Inr w' \<and> memory w' = memory w \<and> g_regs w' = g_regs w1
           \<and> (events w' = events w
               \<or> events w' = events w @ [DEBUG_LOG_MemoryFill (GetStartAddress p is_second_filler (g_regs w1))
                                                            (GetEndAddress p is_second_filler (g_regs w1))])"
proof -
  have W: "Write p raw_addr (U32 data) w = memory_fill p is_second_filler w1"
    using idx lab by (auto simp: Write_def Let_def w1 u)
  have nofill: "fill_loop start 0 v m = Inr m" for start v m
    by (subst fill_loop.simps) simp
  have "memory_fill p is_second_filler w1 =
      (if field_get (fill_address_start p is_second_filler) (g_regs w1) \<noteq> 0
       then Inr (emit (DEBUG_LOG_MemoryFill (GetStartAddress p is_second_filler (g_regs w1))
                                            (GetEndAddress p is_second_filler (g_regs w1)))
                      (w1\<lparr>memory := memory w1\<rparr>))
       else Inr w1)"
    by (simp add: memory_fill_def Let_def en nofill)
  then show ?thesis
    unfolding W by (simp add: emit_def w1)
qed

lemmas run_null =
  Write_def Let_def null_start_world_def null_end_world_def null_source_world_def sample_world_def
  memory_fill_def fill_base_def fill_loop.simps store32_def
  display_transfer_def counter_values_def upt_conv_Cons
  transfer_pixel_def read_source_color_def write_dest_color_def and_then_def read_u8_def
  write_u8_def load8_def store8_def sample_memory_def emit_def final_def

theorem C8_null_end_fill_witness:
  "GetPointer sample_platform (PhysicalToVirtualAddress sample_platform
      (GetEndAddress sample_platform False ((g_regs null_end_world)(7 := 5)))) = 0
   \<and> Write sample_platform 0x1EF0001C (U32 5) null_end_world
       = Inr (null_end_world\<lparr>g_regs := (g_regs null_end_world)(7 := 5),
                              events := [DEBUG_LOG_MemoryFill 0x100 8]\<rparr>)"
  using C8_null_end_fill[of 7 "0x1EF0001C" sample_platform False _ null_end_world 5, OF _ _ _ _ refl]
  by (simp add: run_null)

text \<open>
  The claim as stated fails where the null pointer is the start of a fill with a valid
  end, or the source of a display transfer with pixels to copy: the first access goes
  through the null pointer and stops the program.
\<close>

theorem C8_null_pointer_counterexample:
  "GetPointer sample_platform (PhysicalToVirtualAddress sample_platform
      (GetStartAddress sample_platform False ((g_regs null_start_world)(7 := 5)))) = 0
   \<and> Write sample_platform 0x1EF0001C (U32 5) null_start_world
       = Inl (HostFault 0, null_start_world\<lparr>g_regs := (g_regs null_start_world)(7 := 5)\<rparr>)
   \<and> GetPointer sample_platform (PhysicalToVirtualAddress sample_platform
      (GetPhysicalInputAddress sample_platform ((g_regs null_source_world)(0x306 := 1)))) = 0
   \<and> Write sample_platform 0x1EF00C18 (U32 1) null_source_world
       = Inl (HostFault 0, null_source_world\<lparr>g_regs := (g_regs null_source_world)(0x306 := 1)\<rparr>)"
  by (simp add: run_null)

subsection \<open>The scanline invariant\<close>

lemma field_get_set_same:
  assumes "bit_pos f + bit_len f \<le> 32"
  shows "field_get f (field_set f v r) = take_bit (bit_len f) v"
  using assms
  by (intro bit_word_eqI) (auto simp: field_get_def field_set_def field_mask_def bit_simps)

lemma field_get_set_other:
  assumes "fields_disjoint f g"
  shows "field_get f (field_set g v r) = field_get f r"
proof (cases "word_index f = word_index g")
  case False
  then show ?thesis by (simp add: field_get_def field_set_def)
next
  case True
  with assms have d: "bit_pos f + bit_len f \<le> bit_pos g \<or> bit_pos g + bit_len g \<le> bit_pos f"
    by (simp add: fields_disjoint_def)
  show ?thesis
  proof (rule bit_word_eqI)
    fix n assume "n < LENGTH(32)"
    show "bit (field_get f (field_set g v r)) n = bit (field_get f r) n"
      using d True
      by (auto simp: field_get_def field_set_def field_mask_def bit_simps dest: bit_imp_le_length)
  qed
qed

lemma take_bit_400: "9 \<le> n \<Longrightarrow> take_bit n (400 :: u32) = 400"
proof -
  assume n: "9 \<le> n"
  have "take_bit n (take_bit 9 (400 :: u32)) = take_bit (min n 9) 400"
    by (rule take_bit_take_bit)
  with n show ?thesis by (simp add: min_def)
qed

lemma Init_height:
  assumes "height_kept p"
  shows "field_get (fb_height p False) (assign_all (init_assignments p) r) = 400"
proof -
  from assms have k: "bit_pos (fb_height p False) + bit_len (fb_height p False) \<le> 32"
      "9 \<le> bit_len (fb_height p False)"
      "list_all (fields_disjoint (fb_height p False)) (assigned_after_height p)"
    by (simp_all add: height_kept_def)
  show ?thesis
    using k
    by (simp add: init_assignments_def assign_all_def assigned_after_height_def
        field_get_set_other field_get_set_same take_bit_400)
qed

lemma Init_result:
  "Init p gpu_refresh_rate ticks w = Inr w' \<Longrightarrow>
     g_cur_line w' = 0 \<and> g_regs w' = assign_all (init_assignments p) (g_regs w)"
  by (auto simp: Init_def Let_def emit_def split: if_splits)

lemma Init_60:
  "Init p 60 ticks w = Inr w' \<Longrightarrow> kFrameCycles w' = 4468724 \<and> kFrameTicks w' = 1489574"
  by (auto simp: Init_def Let_def emit_def)

lemma Update_keeps_inv:
  assumes "scanline_inv p w"
  shows "\<exists>w'. Update p t r w = Inr w' \<and> scanline_inv p w'"
proof -
  let ?H = "field_get (fb_height p False) (g_regs w)"
  from assms have lt: "g_cur_line w < ?H" by (simp add: scanline_inv_def)
  then have nz: "?H \<noteq> 0" by auto
  then have pos: "0 < ?H" by (simp add: word_gt_0)
  show ?thesis
    using lt nz pos
    by (auto simp: Update_def Let_def emit_def scanline_inv_def not_le)
qed

lemma transfer_pixel_cur_line:
  "g_cur_line (final (transfer_pixel p sp dp y x w)) = g_cur_line w"
  by (auto simp: transfer_pixel_def read_source_color_def write_dest_color_def and_then_def
      read_u8_def write_u8_def load8_def store8_def final_def emit_def Let_def
      split: sum.splits option.splits prod.splits if_splits)

lemma memory_fill_cur_line: "g_cur_line (final (memory_fill p u w)) = g_cur_line w"
  by (auto simp: memory_fill_def final_def emit_def Let_def split: sum.splits prod.splits)

lemma display_transfer_cur_line: "g_cur_line (final (display_transfer p w)) = g_cur_line w"
proof (cases "field_get (dt_trigger p) (g_regs w) AND 1 \<noteq> 0")
  case False
  then show ?thesis by (simp add: display_transfer_def Let_def final_def)
next
  case True
  let ?loop = "for_each (pixels p (g_regs w)) (\<lambda>(y, x).
             transfer_pixel p
               (GetPointer p (PhysicalToVirtualAddress p (GetPhysicalInputAddress p (g_regs w))))
               (GetPointer p (PhysicalToVirtualAddress p (GetPhysicalOutputAddress p (g_regs w)))) y x) w"
  have "g_cur_line (final ?loop) = g_cur_line w"
    by (rule for_each_final_inv[where P = "\<lambda>s. g_cur_line s = g_cur_line w"])
       (simp_all add: case_prod_beta transfer_pixel_cur_line)
  with True show ?thesis
    by (cases ?loop) (auto simp: display_transfer_loop and_then_def final_def emit_def)
qed

lemma command_dispatch_cur_line: "g_cur_line (final (command_dispatch p w)) = g_cur_line w"
  by (simp add: command_dispatch_def final_def emit_def Let_def)

lemma Write_cur_line: "g_cur_line (final (Write p raw_addr data w)) = g_cur_line w"
  by (cases data)
     (simp_all add: Write_def Let_def memory_fill_cur_line display_transfer_cur_line
        command_dispatch_cur_line, simp_all add: final_def emit_def)

lemma Write_regs_any:
  "g_regs (final (Write p raw_addr data w)) =
     (case data of
        U32 v \<Rightarrow> if unat ((raw_addr - 0x1EF00000) div 4) < NumIds p
                 then (g_regs w)(unat ((raw_addr - 0x1EF00000) div 4) := v) else g_regs w
      | _ \<Rightarrow> g_regs w)"
  by (cases data)
     (simp_all add: Write_def Let_def memory_fill_regs display_transfer_regs
        command_dispatch_regs, simp_all add: final_def emit_def)

text \<open>
  C10, as the code has it. \<^verbatim>\<open>Init\<close> leaves the scanline counter at 0 and, on a layout
  that keeps the height it assigns, the height at 400, so the invariant holds. A read
  changes neither side of it. \<^verbatim>\<open>Update\<close>, called in a state where it holds, returns and
  leaves it holding. A write never changes the scanline counter, and leaves the invariant
  as it found it unless it addresses the word that holds the primary framebuffer height.
\<close>

theorem C10_scanline_invariant:
  "(\<forall>w'. Init p gpu_refresh_rate ticks w = Inr w' \<longrightarrow>
      g_cur_line w' = 0
      \<and> (height_kept p \<longrightarrow> field_get (fb_height p False) (g_regs w') = 400 \<and> scanline_inv p w'))
   \<and> scanline_inv p (snd (Read p var raw_addr w)) = scanline_inv p w
   \<and> (scanline_inv p w \<longrightarrow>
        (\<exists>w'. Update p current_ticks g_reschedule w = Inr w' \<and> scanline_inv p w'))
   \<and> g_cur_line (final (Write p raw_addr data w)) = g_cur_line w
   \<and> (unat ((raw_addr - 0x1EF00000) div 4) \<noteq> word_index (fb_height p False) \<longrightarrow>
        scanline_inv p (final (Write p raw_addr data w)) = scanline_inv p w)"
proof (intro conjI allI impI)
  fix w' assume i: "Init p gpu_refresh_rate ticks w = Inr w'"
  from Init_result[OF i] show "g_cur_line w' = 0" by simp
  assume k: "height_kept p"
  from Init_result[OF i] Init_height[OF k]
  show h: "field_get (fb_height p False) (g_regs w') = 400" by simp
  from Init_result[OF i] h show "scanline_inv p w'"
    by (simp add: scanline_inv_def word_less_nat_alt)
next
  show "scanline_inv p (snd (Read p var raw_addr w)) = scanline_inv p w"
    by (cases var) (simp_all add: Read_def Let_def scanline_inv_def emit_def)
next
  assume "scanline_inv p w"
  then show "\<exists>w'. Update p current_ticks g_reschedule w = Inr w' \<and> scanline_inv p w'"
    by (rule Update_keeps_inv)
next
  show "g_cur_line (final (Write p raw_addr data w)) = g_cur_line w"
    by (rule Write_cur_line)
next
  assume "unat ((raw_addr - 0x1EF00000) div 4) \<noteq> word_index (fb_height p False)"
  then have "field_get (fb_height p False) (g_regs (final (Write p raw_addr data w)))
           = field_get (fb_height p False) (g_regs w)"
    by (cases data) (simp_all add: Write_regs_any field_get_def)
  then show "scanline_inv p (final (Write p raw_addr data w)) = scanline_inv p w"
    by (simp add: scanline_inv_def Write_cur_line)
qed

lemma sample_fb_fields [simp]:
  "fb_width sample_platform i = bits (fb_base i) 0 16"
  "fb_stride sample_platform i = plain (fb_base i + 13)"
  "fb_color_format sample_platform i = bits (fb_base i + 5) 0 3"
  "fb_active_fb sample_platform i = plain (fb_base i + 7)"
  by (simp_all add: sample_platform_def)

lemma height_kept_sample: "height_kept sample_platform"
  by (simp add: height_kept_def assigned_after_height_def fields_disjoint_def bits_def plain_def
      fb_base_def)

lemma Init_sample:
  "Init sample_platform 60 0 sample_world = Inr (final (Init sample_platform 60 0 sample_world))"
  by (simp add: Init_def Let_def final_def)

theorem C10_scanline_invariant_witness:
  "Init sample_platform 60 0 sample_world = Inr (final (Init sample_platform 60 0 sample_world))
   \<and> height_kept sample_platform
   \<and> g_cur_line (final (Init sample_platform 60 0 sample_world)) = 0
   \<and> field_get (fb_height sample_platform False) (g_regs (final (Init sample_platform 60 0 sample_world))) = 400
   \<and> scanline_inv sample_platform (final (Init sample_platform 60 0 sample_world))
   \<and> scanline_inv sample_platform (snd (Read sample_platform (U32 0) 0x1EF0045C
        (final (Init sample_platform 60 0 sample_world))))
   \<and> returns (Update sample_platform 5000 True (final (Init sample_platform 60 0 sample_world)))
   \<and> scanline_inv sample_platform
        (final (Update sample_platform 5000 True (final (Init sample_platform 60 0 sample_world))))
   \<and> unat ((0x1EF00460 - 0x1EF00000 :: u32) div 4) \<noteq> word_index (fb_height sample_platform False)
   \<and> scanline_inv sample_platform
        (final (Write sample_platform 0x1EF00460 (U32 0) (final (Init sample_platform 60 0 sample_world))))"
proof -
  let ?w0 = "final (Init sample_platform 60 0 sample_world)"
  note I = C10_scanline_invariant[of sample_platform 60 0 sample_world "U32 0" "0x1EF0045C" 5000 True "U32 0"]
  from I[THEN conjunct1, rule_format, OF Init_sample]
  have a: "g_cur_line ?w0 = 0" "field_get (fb_height sample_platform False) (g_regs ?w0) = 400"
      "scanline_inv sample_platform ?w0"
    using height_kept_sample by simp_all
  note R = C10_scanline_invariant[of sample_platform 60 0 ?w0 "U32 0" "0x1EF0045C" 5000 True "U32 0"]
  from R a(3) have b: "scanline_inv sample_platform (snd (Read sample_platform (U32 0) 0x1EF0045C ?w0))"
    by simp
  from R a(3) obtain w' where w': "Update sample_platform 5000 True ?w0 = Inr w'"
      "scanline_inv sample_platform w'"
    by blast
  then have c: "returns (Update sample_platform 5000 True ?w0)"
      "scanline_inv sample_platform (final (Update sample_platform 5000 True ?w0))"
    by (simp_all add: returns_def final_def)
  have d: "unat ((0x1EF00460 - 0x1EF00000 :: u32) div 4) \<noteq> word_index (fb_height sample_platform False)"
    by (simp add: bits_def fb_base_def)
  note W = C10_scanline_invariant[of sample_platform 60 0 ?w0 "U32 0" "0x1EF00460" 5000 True "U32 0"]
  from W d a(3) have e: "scanline_inv sample_platform (final (Write sample_platform 0x1EF00460 (U32 0) ?w0))"
    by blast
  from Init_sample height_kept_sample a b c d e show ?thesis by blast
qed

text \<open>
  The claim as stated fails for a write to the word that holds the height: after
  \<^verbatim>\<open>Init\<close>, storing 0 there leaves the scanline counter 0 and the height 0.
\<close>

theorem C10_scanline_invariant_counterexample:
  "Init sample_platform 60 0 sample_world = Inr (final (Init sample_platform 60 0 sample_world))
   \<and> Write sample_platform 0x1EF0045C (U32 0) (final (Init sample_platform 60 0 sample_world))
       = Inr (final (Write sample_platform 0x1EF0045C (U32 0) (final (Init sample_platform 60 0 sample_world))))
   \<and> g_cur_line (final (Write sample_platform 0x1EF0045C (U32 0)
        (final (Init sample_platform 60 0 sample_world)))) = 0
   \<and> field_get (fb_height sample_platform False) (g_regs (final (Write sample_platform 0x1EF0045C (U32 0)
        (final (Init sample_platform 60 0 sample_world))))) = 0
   \<and> \<not> scanline_inv sample_platform (final (Write sample_platform 0x1EF0045C (U32 0)
        (final (Init sample_platform 60 0 sample_world))))"
proof -
  let ?w0 = "final (Init sample_platform 60 0 sample_world)"
  have W: "Write sample_platform 0x1EF0045C (U32 0) ?w0 = Inr (?w0\<lparr>g_regs := (g_regs ?w0)(0x117 := 0)\<rparr>)"
    by (simp add: Write_def Let_def fill_base_def)
  have c: "g_cur_line ?w0 = 0"
    by (simp add: Init_def Let_def final_def emit_def)
  from W c Init_sample show ?thesis
    by (simp add: final_def scanline_inv_def fb_base_def)
qed

end
